theory Spec2Isabelle
  imports Complex_Main "HOL-Library.Sublist" "HOL-Library.AList" "HOL-Library.Multiset"
begin

section \<open>JavaScript values as the presentation layer sees them\<close>

text \<open>
  The web client is TypeScript. Its numbers are IEEE doubles: the model keeps the three
  special values apart and takes every finite double as an exact rational (rounding and
  the sign of zero are not modelled; no property below depends on either).
\<close>

datatype jsnum = Fin rat | NaN | PosInf | NegInf

text \<open>\<^verbatim>\<open>Number.isFinite(n)\<close> for a value that already is a number.\<close>

fun isFinite :: "jsnum \<Rightarrow> bool" where
  "isFinite (Fin q) = True"
| "isFinite NaN = False"
| "isFinite PosInf = False"
| "isFinite NegInf = False"

text \<open>The relational operators \<^verbatim>\<open><\<close> and \<^verbatim>\<open><=\<close>: false as soon as one side is NaN.\<close>

fun js_lt :: "jsnum \<Rightarrow> jsnum \<Rightarrow> bool" where
  "js_lt (Fin a) (Fin b) = (a < b)"
| "js_lt NaN _ = False"
| "js_lt _ NaN = False"
| "js_lt NegInf NegInf = False"
| "js_lt NegInf _ = True"
| "js_lt PosInf _ = False"
| "js_lt (Fin a) PosInf = True"
| "js_lt (Fin a) NegInf = False"

fun js_le :: "jsnum \<Rightarrow> jsnum \<Rightarrow> bool" where
  "js_le (Fin a) (Fin b) = (a \<le> b)"
| "js_le NaN _ = False"
| "js_le _ NaN = False"
| "js_le NegInf _ = True"
| "js_le PosInf PosInf = True"
| "js_le PosInf _ = False"
| "js_le (Fin a) PosInf = True"
| "js_le (Fin a) NegInf = False"

text \<open>\<^verbatim>\<open>Math.max(a, b)\<close> and \<^verbatim>\<open>Math.min(a, b)\<close>: NaN when an argument is NaN.\<close>

definition Math_max :: "jsnum \<Rightarrow> jsnum \<Rightarrow> jsnum" where
  "Math_max a b = (if a = NaN \<or> b = NaN then NaN else if js_lt a b then b else a)"

definition Math_min :: "jsnum \<Rightarrow> jsnum \<Rightarrow> jsnum" where
  "Math_min a b = (if a = NaN \<or> b = NaN then NaN else if js_lt b a then b else a)"

text \<open>Addition and multiplication of doubles, with the IEEE rules for the special values.\<close>

fun js_add :: "jsnum \<Rightarrow> jsnum \<Rightarrow> jsnum" where
  "js_add (Fin a) (Fin b) = Fin (a + b)"
| "js_add NaN _ = NaN"
| "js_add _ NaN = NaN"
| "js_add PosInf NegInf = NaN"
| "js_add NegInf PosInf = NaN"
| "js_add PosInf _ = PosInf"
| "js_add NegInf _ = NegInf"
| "js_add (Fin a) PosInf = PosInf"
| "js_add (Fin a) NegInf = NegInf"

fun js_mul :: "jsnum \<Rightarrow> jsnum \<Rightarrow> jsnum" where
  "js_mul (Fin a) (Fin b) = Fin (a * b)"
| "js_mul NaN _ = NaN"
| "js_mul _ NaN = NaN"
| "js_mul PosInf PosInf = PosInf"
| "js_mul PosInf NegInf = NegInf"
| "js_mul NegInf PosInf = NegInf"
| "js_mul NegInf NegInf = PosInf"
| "js_mul PosInf (Fin b) = (if b = 0 then NaN else if 0 < b then PosInf else NegInf)"
| "js_mul NegInf (Fin b) = (if b = 0 then NaN else if 0 < b then NegInf else PosInf)"
| "js_mul (Fin a) PosInf = (if a = 0 then NaN else if 0 < a then PosInf else NegInf)"
| "js_mul (Fin a) NegInf = (if a = 0 then NaN else if 0 < a then NegInf else PosInf)"

text \<open>
  A value of type \<^verbatim>\<open>any\<close>, as \<^verbatim>\<open>JSON.parse\<close> delivers it, plus \<^verbatim>\<open>undefined\<close>
  for a field that is missing. An object is the list of its own properties.
\<close>

datatype jsval =
    VUndefined
  | VNull
  | VBool bool
  | VNum jsnum
  | VStr string
  | VArr "jsval list"
  | VObj "(string \<times> jsval) list"

text \<open>Truthiness, as \<^verbatim>\<open>&&\<close>, \<^verbatim>\<open>||\<close>, \<^verbatim>\<open>!\<close> and \<^verbatim>\<open>?:\<close> test it.\<close>

fun truthy :: "jsval \<Rightarrow> bool" where
  "truthy VUndefined = False"
| "truthy VNull = False"
| "truthy (VBool b) = b"
| "truthy (VNum n) = (n \<noteq> NaN \<and> n \<noteq> Fin 0)"
| "truthy (VStr s) = (s \<noteq> [])"
| "truthy (VArr xs) = True"
| "truthy (VObj ps) = True"

text \<open>\<^verbatim>\<open>v == null\<close>: true of null and of undefined only.\<close>

fun nullish :: "jsval \<Rightarrow> bool" where
  "nullish VUndefined = True"
| "nullish VNull = True"
| "nullish _ = False"

text \<open>
  \<^verbatim>\<open>v.k\<close> on a value that is neither null nor undefined, for a name \<open>k\<close> that no
  built-in prototype defines (the client reads \<^verbatim>\<open>override\<close>, \<^verbatim>\<open>effective\<close> and
  \<^verbatim>\<open>crypto_slip_pct\<close> this way): the own property of an object, \<^verbatim>\<open>undefined\<close> otherwise.
\<close>

fun js_get :: "jsval \<Rightarrow> string \<Rightarrow> jsval" where
  "js_get (VObj ps) k = (case map_of ps k of Some v \<Rightarrow> v | None \<Rightarrow> VUndefined)"
| "js_get _ k = VUndefined"

text \<open>\<^verbatim>\<open>v?.k\<close>: \<^verbatim>\<open>undefined\<close> when \<open>v\<close> is null or undefined.\<close>

definition js_opt_get :: "jsval \<Rightarrow> string \<Rightarrow> jsval" where
  "js_opt_get v k = (if nullish v then VUndefined else js_get v k)"

text \<open>
  \<^verbatim>\<open>Number(v)\<close>. The conversion of a non-empty string (the StringToNumber grammar) and
  of an object or array (through its string form) is the host's; it is the parameter
  \<open>N\<close>, and nothing below assumes anything about it. The empty string converts to 0.
\<close>

fun Number :: "(jsval \<Rightarrow> jsnum) \<Rightarrow> jsval \<Rightarrow> jsnum" where
  "Number N VUndefined = NaN"
| "Number N VNull = Fin 0"
| "Number N (VBool b) = Fin (if b then 1 else 0)"
| "Number N (VNum n) = n"
| "Number N (VStr s) = (if s = [] then Fin 0 else N (VStr s))"
| "Number N (VArr xs) = N (VArr xs)"
| "Number N (VObj ps) = N (VObj ps)"

section \<open>The slippage tolerance read from the settings (AllocationPanel, readSlipPct)\<close>

text \<open>
  \<^verbatim>\<open>
  function readSlipPct(settings: SettingsPayload | null): number {
    const ov = settings?.override as any;
    if (ov && ov.crypto_slip_pct != null) {
      const n = Number(ov.crypto_slip_pct);
      if (Number.isFinite(n)) return Math.max(0, Math.min(20, n));
    }
    const eff = settings?.effective as any;
    const v = eff?.crypto_slip_pct;
    const n = Number(v);
    if (Number.isFinite(n)) return Math.max(0, Math.min(20, n));
    return 1.0;
  }
  \<close>
\<close>

definition clamp_pct :: "jsnum \<Rightarrow> jsnum" where
  "clamp_pct n = Math_max (Fin 0) (Math_min (Fin 20) n)"

definition read_effective_slip :: "(jsval \<Rightarrow> jsnum) \<Rightarrow> jsval \<Rightarrow> jsnum" where
  "read_effective_slip N settings =
     (let eff = js_opt_get settings ''effective'';
          v = js_opt_get eff ''crypto_slip_pct'';
          n = Number N v
      in if isFinite n then clamp_pct n else Fin 1)"

definition readSlipPct :: "(jsval \<Rightarrow> jsnum) \<Rightarrow> jsval \<Rightarrow> jsnum" where
  "readSlipPct N settings =
     (let ov = js_opt_get settings ''override'' in
      if truthy ov \<and> \<not> nullish (js_get ov ''crypto_slip_pct'')
         \<and> isFinite (Number N (js_get ov ''crypto_slip_pct''))
      then clamp_pct (Number N (js_get ov ''crypto_slip_pct''))
      else read_effective_slip N settings)"

text \<open>
  The claim's wording, as a second definition: the number the override gives when its
  field is present (not null, not missing) and converts to a finite number, otherwise the
  number the effective settings give when it converts to a finite number, otherwise 1.0;
  the first two clamped to the interval from 0 to 20.
\<close>

definition override_slip :: "(jsval \<Rightarrow> jsnum) \<Rightarrow> jsval \<Rightarrow> jsnum option" where
  "override_slip N settings =
     (case settings of
        VObj ps \<Rightarrow>
          (case map_of ps ''override'' of
             Some (VObj os) \<Rightarrow>
               (case map_of os ''crypto_slip_pct'' of
                  None \<Rightarrow> None
                | Some VNull \<Rightarrow> None
                | Some VUndefined \<Rightarrow> None
                | Some x \<Rightarrow> (case Number N x of Fin q \<Rightarrow> Some (Fin q) | _ \<Rightarrow> None))
           | _ \<Rightarrow> None)
      | _ \<Rightarrow> None)"

definition effective_slip :: "(jsval \<Rightarrow> jsnum) \<Rightarrow> jsval \<Rightarrow> jsnum option" where
  "effective_slip N settings =
     (case settings of
        VObj ps \<Rightarrow>
          (case map_of ps ''effective'' of
             Some (VObj es) \<Rightarrow>
               (case map_of es ''crypto_slip_pct'' of
                  None \<Rightarrow> None
                | Some x \<Rightarrow> (case Number N x of Fin q \<Rightarrow> Some (Fin q) | _ \<Rightarrow> None))
           | _ \<Rightarrow> None)
      | _ \<Rightarrow> None)"

fun clamp_0_20 :: "jsnum \<Rightarrow> jsnum" where
  "clamp_0_20 (Fin q) = Fin (max 0 (min 20 q))"
| "clamp_0_20 n = n"

definition slip_as_described :: "(jsval \<Rightarrow> jsnum) \<Rightarrow> jsval \<Rightarrow> jsnum" where
  "slip_as_described N settings =
     (case override_slip N settings of
        Some n \<Rightarrow> clamp_0_20 n
      | None \<Rightarrow>
          (case effective_slip N settings of
             Some n \<Rightarrow> clamp_0_20 n
           | None \<Rightarrow> Fin 1))"

section \<open>The allocation panel (AllocationPanel)\<close>

subsection \<open>Payload types (lib/types.ts)\<close>

text \<open>
  Strings are lists of bytes; text outside ASCII stands as its UTF-8 bytes. The dash
  the client prints for a missing figure is U+2014.
\<close>

definition dash :: string where
  "dash = [CHR 0xE2, CHR 0x80, CHR 0x94]"

text \<open>What \<^verbatim>\<open>buildAssetMetaById\<close> keeps of an asset view.\<close>

record asset_meta =
  meta_kind :: string
  meta_source :: "string option"
  meta_name :: "string option"

text \<open>\<^verbatim>\<open>AssetBuySuggestion\<close>: \<^verbatim>\<open>asset_id\<close> may be null.\<close>

record asset_buy =
  asset_id :: "string option"
  buy_name :: string
  buy_code :: string
  amount_cny :: jsnum
  est_quantity :: "jsnum option"

text \<open>
  \<^verbatim>\<open>CategorySuggestion\<close>. The weights are kept as raw values: the panel converts them
  with \<^verbatim>\<open>Number\<close> itself. \<open>cs_assets\<close> is \<open>None\<close> when the field is missing.
\<close>

record category_suggestion =
  category_id :: string
  cs_name :: string
  current_weight :: jsval
  allocate_amount :: jsval
  weight_after :: jsval
  target_value_after :: jsval
  cs_assets :: "asset_buy list option"

text \<open>
  \<^verbatim>\<open>ContributionSuggestion\<close>, with the two fields of the suggest-after-crypto payload the
  panel reads back.
\<close>

record contribution_suggestion =
  sg_categories :: "category_suggestion list option"
  prefill_assets :: "(string \<times> jsnum) list option"
  contribution_remaining :: jsval

subsection \<open>collectCryptoPrefill\<close>

text \<open>
  \<^verbatim>\<open>
  function collectCryptoPrefill(sug, metaById): CryptoPrefill {
    const items = []; const prefillAssets = {}; let total = 0;
    for (const c of sug?.categories || []) {
      for (const a of c.assets || []) {
        const aid = (a.asset_id || "") as string;
        if (!aid) continue;
        const meta = metaById[aid];
        if (!meta || meta.kind !== "crypto") continue;
        const source = String(meta.source || "");
        if (source.includes("manual-quantity")) continue;
        const amt = Number(a.amount_cny || 0);
        if (!Number.isFinite(amt) || amt <= 0) continue;
        total += amt;
        prefillAssets[aid] = (prefillAssets[aid] || 0) + amt;
        items.push({ name: a.name || meta.name || a.code || DASH, amount: amt });
      }
    }
    return { total, items, prefillAssets };
  }
  \<close>
  \<^verbatim>\<open>DASH\<close> stands for the string of the one character U+2014.
\<close>

text \<open>\<^verbatim>\<open>n || 0\<close> for a number \<open>n\<close>: NaN and 0 are falsy.\<close>

definition num_or_zero :: "jsnum \<Rightarrow> jsnum" where
  "num_or_zero n = (if n = NaN \<or> n = Fin 0 then Fin 0 else n)"

text \<open>
  The names every plain object inherits from \<^verbatim>\<open>Object.prototype\<close>. A lookup
  \<^verbatim>\<open>obj[k]\<close> on an object literal that has no own property \<open>k\<close> gives the inherited
  member for these names (a function, or the prototype itself for \<^verbatim>\<open>__proto__\<close>), and
  \<^verbatim>\<open>undefined\<close> for every other name.
\<close>

definition object_prototype_names :: "string list" where
  "object_prototype_names =
     [''constructor'', ''hasOwnProperty'', ''isPrototypeOf'', ''propertyIsEnumerable'',
      ''toLocaleString'', ''toString'', ''valueOf'', ''__proto__'',
      ''__defineGetter__'', ''__defineSetter__'', ''__lookupGetter__'', ''__lookupSetter__'']"

text \<open>
  A value of the accumulator object \<^verbatim>\<open>prefillAssets\<close>: a number, or the string that
  \<^verbatim>\<open>+\<close> builds when its left operand is an inherited member (or such a string); the
  characters of that string are not modelled.
\<close>

datatype pfval = Amount jsnum | Concat

text \<open>
  \<^verbatim>\<open>prefillAssets[aid] = (prefillAssets[aid] || 0) + amt\<close> on the list of own properties.
  With no own property and an inherited name, the left operand is the inherited member:
  the sum is a string, stored as an own property, except under \<^verbatim>\<open>__proto__\<close>, whose
  setter ignores a string.
\<close>

definition bump_prefill :: "(string \<times> pfval) list \<Rightarrow> string \<Rightarrow> jsnum \<Rightarrow> (string \<times> pfval) list" where
  "bump_prefill m aid amt =
     (case map_of m aid of
        Some (Amount x) \<Rightarrow> AList.update aid (Amount (js_add (num_or_zero x) amt)) m
      | Some Concat \<Rightarrow> m
      | None \<Rightarrow>
          if aid \<in> set object_prototype_names
          then (if aid = ''__proto__'' then m else AList.update aid Concat m)
          else AList.update aid (Amount (js_add (Fin 0) amt)) m)"

record crypto_prefill =
  cp_total :: jsnum
  cp_items :: "(string \<times> jsnum) list"
  cp_prefillAssets :: "(string \<times> pfval) list"

text \<open>\<^verbatim>\<open>a.name || meta.name || a.code || DASH\<close>\<close>

definition item_name :: "asset_buy \<Rightarrow> asset_meta \<Rightarrow> string" where
  "item_name a meta =
     (if buy_name a \<noteq> [] then buy_name a
      else if meta_name meta \<noteq> None \<and> meta_name meta \<noteq> Some [] then the (meta_name meta)
      else if buy_code a \<noteq> [] then buy_code a
      else dash)"

text \<open>
  One pass of the inner loop body. \<open>metaById aid\<close> is \<open>Some meta\<close> when the lookup gives a
  metadata record: an own property of the map, or, under \<^verbatim>\<open>__proto__\<close>, the record that
  \<^verbatim>\<open>buildAssetMetaById\<close> made the prototype of the map for an asset of that id. A missing
  key, and a function inherited from \<^verbatim>\<open>Object.prototype\<close> (whose \<^verbatim>\<open>kind\<close> is undefined),
  both fail the test on \<^verbatim>\<open>meta\<close> and are \<open>None\<close>.
\<close>

definition visit_asset :: "(string \<Rightarrow> asset_meta option) \<Rightarrow> crypto_prefill \<Rightarrow> asset_buy \<Rightarrow> crypto_prefill" where
  "visit_asset metaById acc a =
     (let aid = (case asset_id a of None \<Rightarrow> [] | Some s \<Rightarrow> s) in
      if aid = [] then acc
      else case metaById aid of
        None \<Rightarrow> acc
      | Some meta \<Rightarrow>
          if meta_kind meta \<noteq> ''crypto'' then acc
          else let source = (case meta_source meta of None \<Rightarrow> [] | Some s \<Rightarrow> s) in
            if sublist ''manual-quantity'' source then acc
            else let amt = num_or_zero (amount_cny a) in
              if \<not> isFinite amt \<or> js_le amt (Fin 0) then acc
              else acc\<lparr>cp_total := js_add (cp_total acc) amt,
                       cp_prefillAssets := bump_prefill (cp_prefillAssets acc) aid amt,
                       cp_items := cp_items acc @ [(item_name a meta, amt)]\<rparr>)"

definition assets_of :: "category_suggestion \<Rightarrow> asset_buy list" where
  "assets_of c = (case cs_assets c of None \<Rightarrow> [] | Some xs \<Rightarrow> xs)"

definition categories_of :: "contribution_suggestion option \<Rightarrow> category_suggestion list" where
  "categories_of sug =
     (case sug of None \<Rightarrow> [] | Some s \<Rightarrow> (case sg_categories s of None \<Rightarrow> [] | Some cs \<Rightarrow> cs))"

definition collectCryptoPrefill :: "contribution_suggestion option \<Rightarrow> (string \<Rightarrow> asset_meta option) \<Rightarrow> crypto_prefill" where
  "collectCryptoPrefill sug metaById =
     foldl (\<lambda>acc c. foldl (visit_asset metaById) acc (assets_of c))
       \<lparr>cp_total = Fin 0, cp_items = [], cp_prefillAssets = []\<rparr>
       (categories_of sug)"

text \<open>
  The claim's wording, as a predicate of its own: the entry names an asset, the asset is
  known as crypto, its balance comes from a wallet and not from a quantity typed in by
  hand, and the suggested amount is a finite number above zero.
\<close>

definition wallet_backed :: "(string \<Rightarrow> asset_meta option) \<Rightarrow> asset_buy \<Rightarrow> bool" where
  "wallet_backed metaById a =
     (case asset_id a of
        None \<Rightarrow> False
      | Some aid \<Rightarrow>
          aid \<noteq> [] \<and>
          (case metaById aid of
             None \<Rightarrow> False
           | Some meta \<Rightarrow>
               meta_kind meta = ''crypto'' \<and>
               \<not> sublist ''manual-quantity'' (case meta_source meta of None \<Rightarrow> [] | Some s \<Rightarrow> s)) \<and>
          (case amount_cny a of Fin q \<Rightarrow> 0 < q | _ \<Rightarrow> False))"

definition amount_of :: "asset_buy \<Rightarrow> rat" where
  "amount_of a = (case amount_cny a of Fin q \<Rightarrow> q | _ \<Rightarrow> 0)"

definition suggested_entries :: "contribution_suggestion option \<Rightarrow> asset_buy list" where
  "suggested_entries sug = concat (map assets_of (categories_of sug))"

definition expected_entries :: "contribution_suggestion option \<Rightarrow> (string \<Rightarrow> asset_meta option) \<Rightarrow> asset_buy list" where
  "expected_entries sug metaById = filter (wallet_backed metaById) (suggested_entries sug)"

definition credited :: "(string \<Rightarrow> asset_meta option) \<Rightarrow> string \<Rightarrow> asset_buy list \<Rightarrow> rat list" where
  "credited metaById k xs =
     map amount_of (filter (\<lambda>a. wallet_backed metaById a \<and> asset_id a = Some k) xs)"

subsection \<open>The panel's state and its handlers\<close>

text \<open>
  The \<^verbatim>\<open>useState\<close> cells of \<^verbatim>\<open>AllocationPanel\<close>. \<open>None\<close> is \<^verbatim>\<open>null\<close>.
\<close>

record panel_state =
  contribution :: string
  suggestion :: "contribution_suggestion option"
  cryptoBaseline :: "(string \<times> jsnum) list option"
  expectedCrypto :: "(string \<times> pfval) list option"
  prefillAssets :: "(string \<times> jsnum) list option"
  contributionTotal :: "jsnum option"
  contributionRemaining :: "jsnum option"

definition initial_panel :: panel_state where
  "initial_panel =
     \<lparr>contribution = [], suggestion = None, cryptoBaseline = None, expectedCrypto = None,
      prefillAssets = None, contributionTotal = None, contributionRemaining = None\<rparr>"

datatype js_error = Error string | TypeError

text \<open>
  \<^verbatim>\<open>prefillAssets ? Object.values(prefillAssets).reduce((sum, v) => sum + (Number(v) || 0), 0) : 0\<close>
\<close>

definition prefillSum :: "panel_state \<Rightarrow> jsnum" where
  "prefillSum st =
     (case prefillAssets st of
        None \<Rightarrow> Fin 0
      | Some pa \<Rightarrow> foldl (\<lambda>sum v. js_add sum (num_or_zero v)) (Fin 0) (map snd pa))"

text \<open>
  The request of \<^verbatim>\<open>suggestM.mutationFn\<close>: the \<^verbatim>\<open>contribution\<close> parameter, and
  \<^verbatim>\<open>prefill\<close> when the state holds a non-empty prefill map.
\<close>

record suggest_request =
  sq_contribution :: jsnum
  sq_prefill :: "(string \<times> jsnum) list option"

definition suggest_request_of :: "panel_state \<Rightarrow> jsnum \<Rightarrow> suggest_request" where
  "suggest_request_of st amt =
     \<lparr>sq_contribution = amt,
      sq_prefill = (case prefillAssets st of
                      None \<Rightarrow> None
                    | Some pa \<Rightarrow> if pa \<noteq> [] then Some pa else None)\<rparr>"

text \<open>
  \<^verbatim>\<open>
  const showSuggest = () => {
    const amt = Number(contribution || 0);
    if (!Number.isFinite(amt) || amt <= 0) {
      toast.push("...", { tone: "warn" });
      return;
    }
    suggestM.mutate(amt);
  };
  \<close>
  The outcome is the warning toast alone, or the mutation started with its request.
\<close>

datatype suggest_outcome = WarnToast | Requested suggest_request

definition typed_amount :: "(jsval \<Rightarrow> jsnum) \<Rightarrow> panel_state \<Rightarrow> jsnum" where
  "typed_amount N st =
     Number N (if contribution st = [] then VNum (Fin 0) else VStr (contribution st))"

definition showSuggest :: "(jsval \<Rightarrow> jsnum) \<Rightarrow> panel_state \<Rightarrow> suggest_outcome" where
  "showSuggest N st =
     (let amt = typed_amount N st in
      if \<not> isFinite amt \<or> js_le amt (Fin 0) then WarnToast
      else Requested (suggest_request_of st amt))"

text \<open>
  \<^verbatim>\<open>suggestM.onSuccess(sug, amt)\<close>, up to its \<^verbatim>\<open>await\<close>:
  \<^verbatim>\<open>
      setSuggestion(sug);
      setContributionTotal(amt);
      setContributionRemaining(amt);
      const cryptoInfo = collectCryptoPrefill(sug, metaById);
      const prefillSum = ...;
      if (prefillSum <= 0) setExpectedCrypto(cryptoInfo.total > 0 ? cryptoInfo.prefillAssets : null);
  \<close>
\<close>

definition suggest_onSuccess_sync ::
  "(string \<Rightarrow> asset_meta option) \<Rightarrow> contribution_suggestion option \<Rightarrow> jsnum \<Rightarrow> panel_state \<Rightarrow> panel_state" where
  "suggest_onSuccess_sync metaById sug amt st =
     (let cryptoInfo = collectCryptoPrefill sug metaById;
          st1 = st\<lparr>suggestion := sug, contributionTotal := Some amt, contributionRemaining := Some amt\<rparr>
      in if js_le (prefillSum st) (Fin 0)
         then st1\<lparr>expectedCrypto :=
                     (if js_lt (Fin 0) (cp_total cryptoInfo) then Some (cp_prefillAssets cryptoInfo) else None)\<rparr>
         else st1)"

text \<open>
  and after it:
  \<^verbatim>\<open>
      try {
        const snap = await api.get<{ ok: boolean; assets?: Record<string, number> }>("/api/v2/crypto/snapshot");
        setCryptoBaseline((snap && snap.assets) || {});
      } catch {
        setCryptoBaseline(null);
      }
  \<close>
  The request throws, or answers with an empty body (\<^verbatim>\<open>null\<close>), or with an object whose
  \<^verbatim>\<open>assets\<close> may be missing.
\<close>

datatype snapshot_response = SnapThrew | SnapNull | SnapBody "(string \<times> jsnum) list option"

text \<open>
  The value that goes into \<^verbatim>\<open>setCryptoBaseline\<close>: \<^verbatim>\<open>null\<close> from the \<^verbatim>\<open>catch\<close>, the
  \<^verbatim>\<open>assets\<close> of the answer when it has them (an object is truthy, an empty one too), and
  the empty object \<^verbatim>\<open>{}\<close> for an answer that is \<^verbatim>\<open>null\<close> or has no \<^verbatim>\<open>assets\<close>.
\<close>

definition stored_baseline :: "snapshot_response \<Rightarrow> (string \<times> jsnum) list option" where
  "stored_baseline r =
     (case r of
        SnapThrew \<Rightarrow> None
      | SnapNull \<Rightarrow> Some []
      | SnapBody None \<Rightarrow> Some []
      | SnapBody (Some assets) \<Rightarrow> Some assets)"

definition snapshot_done :: "snapshot_response \<Rightarrow> panel_state \<Rightarrow> panel_state" where
  "snapshot_done r st = st\<lparr>cryptoBaseline := stored_baseline r\<rparr>"

text \<open>
  \<^verbatim>\<open>
  mutationFn: async () => {
    const baseAmount = Number(contributionTotal ?? contribution ?? 0);
    if (!Number.isFinite(baseAmount) || baseAmount <= 0) throw new Error("invalid amount");
    if (!cryptoBaseline) throw new Error("missing baseline");
    if (!expectedCrypto || Object.keys(expectedCrypto).length === 0) throw new Error("missing expected");
    const baselineParam = encodeURIComponent(JSON.stringify(cryptoBaseline || {}));
    const expectedParam = encodeURIComponent(JSON.stringify(expectedCrypto || {}));
    const slipPct = readSlipPct(settingsQ.data ?? null);
    return api.get(`/api/v2/allocation/suggest-after-crypto?contribution=...&baseline=...&expected=...&slip_pct=...`);
  }
  \<close>
  The request is the record of its four query parameters, before their encoding into the
  URL. \<open>contribution\<close> is a string, never null, so the last operand of \<^verbatim>\<open>??\<close> is never
  reached.
\<close>

record confirm_request =
  rq_contribution :: jsnum
  rq_baseline :: "(string \<times> jsnum) list"
  rq_expected :: "(string \<times> pfval) list"
  rq_slip_pct :: jsnum

definition baseAmount :: "(jsval \<Rightarrow> jsnum) \<Rightarrow> panel_state \<Rightarrow> jsnum" where
  "baseAmount N st =
     (case contributionTotal st of
        Some n \<Rightarrow> n
      | None \<Rightarrow> Number N (VStr (contribution st)))"

definition confirmCryptoM :: "(jsval \<Rightarrow> jsnum) \<Rightarrow> jsval \<Rightarrow> panel_state \<Rightarrow> js_error + confirm_request" where
  "confirmCryptoM N settings_data st =
     (let b = baseAmount N st in
      if \<not> isFinite b \<or> js_le b (Fin 0) then Inl (Error ''invalid amount'')
      else case cryptoBaseline st of
        None \<Rightarrow> Inl (Error ''missing baseline'')
      | Some base \<Rightarrow>
          (case expectedCrypto st of
             None \<Rightarrow> Inl (Error ''missing expected'')
           | Some ex \<Rightarrow>
               if ex = [] then Inl (Error ''missing expected'')
               else Inr \<lparr>rq_contribution = b, rq_baseline = base, rq_expected = ex,
                         rq_slip_pct = readSlipPct N (if nullish settings_data then VNull else settings_data)\<rparr>))"

text \<open>
  \<^verbatim>\<open>
  onSuccess: (sug) => {
    const pa = (sug && (sug as any).prefill_assets) || {};
    const remaining = Number((sug as any).contribution_remaining);
    setSuggestion(sug);
    setPrefillAssets(pa && Object.keys(pa).length ? pa : null);
    setContributionRemaining(Number.isFinite(remaining) ? remaining : contributionRemaining);
  }
  \<close>
  Reading \<^verbatim>\<open>contribution_remaining\<close> of a null answer throws before any cell is set.
\<close>

definition confirm_onSuccess ::
  "(jsval \<Rightarrow> jsnum) \<Rightarrow> contribution_suggestion option \<Rightarrow> panel_state \<Rightarrow> js_error + panel_state" where
  "confirm_onSuccess N sug st =
     (case sug of
        None \<Rightarrow> Inl TypeError
      | Some s \<Rightarrow>
          (let pa = (case prefill_assets s of None \<Rightarrow> [] | Some p \<Rightarrow> p);
               remaining = Number N (contribution_remaining s)
           in Inr (st\<lparr>suggestion := Some s,
                       prefillAssets := (if pa \<noteq> [] then Some pa else None),
                       contributionRemaining :=
                         (if isFinite remaining then Some remaining else contributionRemaining st)\<rparr>)))"

text \<open>
  The button that clears the panel, and \<^verbatim>\<open>applyM.onSuccess\<close>, set every cell back:
  \<^verbatim>\<open>
    setContribution(""); setSuggestion(null); setContributionTotal(null);
    setContributionRemaining(null); setPrefillAssets(null); setCryptoBaseline(null);
    setExpectedCrypto(null);
  \<close>
\<close>

definition cleared :: "panel_state \<Rightarrow> panel_state" where
  "cleared st =
     st\<lparr>contribution := [], suggestion := None, contributionTotal := None,
        contributionRemaining := None, prefillAssets := None, cryptoBaseline := None,
        expectedCrypto := None\<rparr>"

text \<open>
  What happens to the panel, one event at a time. \<^verbatim>\<open>suggestM.onSuccess\<close> is an
  \<^verbatim>\<open>async\<close> function: it runs up to its \<^verbatim>\<open>await\<close> when the answer of the first
  phase arrives, and the rest when the snapshot request is settled. In between the panel
  renders with the cells the first part has set, and its buttons work: the button of the
  confirmation is disabled by \<^verbatim>\<open>confirmCryptoM.isPending\<close> alone, the field and the
  clearing button by nothing. So the two parts are two events, and any other event may
  come between them:
  \<^item> \<open>Typed\<close>: the user edits the amount field (\<^verbatim>\<open>setContribution\<close>);
  \<^item> \<open>SuggestAnswered\<close>: the first part of \<^verbatim>\<open>suggestM.onSuccess(sug, amt)\<close>, with the
    \<^verbatim>\<open>metaById\<close> of the render it runs in;
  \<^item> \<open>SnapshotSettled\<close>: its second part, with the outcome of the snapshot request;
  \<^item> \<open>ConfirmAnswered\<close>: \<^verbatim>\<open>confirmCryptoM.onSuccess\<close>; when it throws, the state is as
    it was;
  \<^item> \<open>Cleared\<close>: the clearing button, or \<^verbatim>\<open>applyM.onSuccess\<close>.
\<close>

datatype panel_event =
    Typed string
  | SuggestAnswered "string \<Rightarrow> asset_meta option" "contribution_suggestion option" jsnum
  | SnapshotSettled snapshot_response
  | ConfirmAnswered "contribution_suggestion option"
  | Cleared

fun panel_step :: "(jsval \<Rightarrow> jsnum) \<Rightarrow> panel_state \<Rightarrow> panel_event \<Rightarrow> panel_state" where
  "panel_step N st (Typed txt) = st\<lparr>contribution := txt\<rparr>"
| "panel_step N st (SuggestAnswered metaById sug amt) = suggest_onSuccess_sync metaById sug amt st"
| "panel_step N st (SnapshotSettled r) = snapshot_done r st"
| "panel_step N st (ConfirmAnswered sug) =
     (case confirm_onSuccess N sug st of Inl e \<Rightarrow> st | Inr st' \<Rightarrow> st')"
| "panel_step N st Cleared = cleared st"

text \<open>
  The panel after a sequence of events, from its first render.
\<close>

definition panel_after :: "(jsval \<Rightarrow> jsnum) \<Rightarrow> panel_event list \<Rightarrow> panel_state" where
  "panel_after N evs = foldl (panel_step N) initial_panel evs"

text \<open>
  For the properties below, three readings of a sequence of events given latest first.
  The amount of the latest first phase, unless the panel was cleared since; the baseline
  that the latest settled snapshot request left, unless the panel was cleared since; and
  whether an event is neither a part of a first phase nor a clearing.
\<close>

fun latest_amount :: "panel_event list \<Rightarrow> jsnum option" where
  "latest_amount [] = None"
| "latest_amount (SuggestAnswered metaById sug amt # evs) = Some amt"
| "latest_amount (Cleared # evs) = None"
| "latest_amount (ev # evs) = latest_amount evs"

fun latest_snapshot :: "panel_event list \<Rightarrow> (string \<times> jsnum) list option" where
  "latest_snapshot [] = None"
| "latest_snapshot (SnapshotSettled r # evs) = stored_baseline r"
| "latest_snapshot (Cleared # evs) = None"
| "latest_snapshot (ev # evs) = latest_snapshot evs"


text \<open>
  When the panel renders the button that starts the confirmation:
  \<^verbatim>\<open>
    {suggestion ? ( ... {prefillSum > 0 ? ( ...banner... ) : cryptoInfo.total > 0 ? ( ...button... ) : null}
  \<close>
  with \<^verbatim>\<open>cryptoInfo = collectCryptoPrefill(suggestion, metaById)\<close>.
\<close>

definition confirm_offered :: "(string \<Rightarrow> asset_meta option) \<Rightarrow> panel_state \<Rightarrow> bool" where
  "confirm_offered metaById st =
     (suggestion st \<noteq> None \<and> \<not> js_lt (Fin 0) (prefillSum st)
      \<and> js_lt (Fin 0) (cp_total (collectCryptoPrefill (suggestion st) metaById)))"

section \<open>Number formatting (lib/format.ts)\<close>

text \<open>
  \<^verbatim>\<open>
  export function fmtNum(value: unknown, decimals = 2) {
    const n = Number(value);
    if (!Number.isFinite(n)) return DASH;
    return n
      .toLocaleString("zh-CN", { minimumFractionDigits: decimals, maximumFractionDigits: decimals })
      .replace(/(\.\d*?)0+$/, "$1")
      .replace(/\.$/, "");
  }
  \<close>
  \<^verbatim>\<open>toLocaleString\<close> is the host's: the parameter \<open>L\<close> gives the text of a finite number
  at a number of decimals. The two replacements are modelled: the first applies when the
  text ends in a dot, then digits, the last of them 0, and drops the zeros at the end; the
  second drops a dot at the end.
\<close>

definition is_digit :: "char \<Rightarrow> bool" where
  "is_digit c = (c \<in> set ''0123456789'')"

definition strip_fraction_zeros :: "string \<Rightarrow> string" where
  "strip_fraction_zeros s =
     (let r = rev s;
          zeros = takeWhile (\<lambda>c. c = CHR ''0'') r;
          rest = dropWhile (\<lambda>c. c = CHR ''0'') r;
          after = dropWhile is_digit rest
      in if zeros \<noteq> [] \<and> after \<noteq> [] \<and> hd after = CHR ''.'' then rev rest else s)"

definition strip_final_dot :: "string \<Rightarrow> string" where
  "strip_final_dot s = (if s \<noteq> [] \<and> last s = CHR ''.'' then butlast s else s)"

definition finite_text :: "(rat \<Rightarrow> nat \<Rightarrow> string) \<Rightarrow> rat \<Rightarrow> nat \<Rightarrow> string" where
  "finite_text L q decimals = strip_final_dot (strip_fraction_zeros (L q decimals))"

definition fmtNum :: "(jsval \<Rightarrow> jsnum) \<Rightarrow> (rat \<Rightarrow> nat \<Rightarrow> string) \<Rightarrow> jsval \<Rightarrow> nat \<Rightarrow> string" where
  "fmtNum N L v decimals =
     (case Number N v of Fin q \<Rightarrow> finite_text L q decimals | _ \<Rightarrow> dash)"

text \<open>
  \<^verbatim>\<open>
  export function fmtCny(value: unknown, decimals = 2) {
    const n = Number(value);
    if (!Number.isFinite(n)) return DASH;
    return fmtNum(n, decimals);
  }
  export function fmtSignedCny(value: unknown, decimals = 2) {
    const n = Number(value);
    if (!Number.isFinite(n)) return DASH;
    const sign = n > 0 ? "+" : n < 0 ? MINUS : "";
    return `${sign}${fmtNum(Math.abs(n), decimals)}`;
  }
  export function fmtPct(value: unknown, decimals = 1) {
    const n = Number(value);
    if (!Number.isFinite(n)) return DASH;
    return `${fmtNum(n, decimals)}%`;
  }
  \<close>
  \<^verbatim>\<open>MINUS\<close> is U+2212.
\<close>

definition minus_sign :: string where
  "minus_sign = [CHR 0xE2, CHR 0x88, CHR 0x92]"

definition fmtCny :: "(jsval \<Rightarrow> jsnum) \<Rightarrow> (rat \<Rightarrow> nat \<Rightarrow> string) \<Rightarrow> jsval \<Rightarrow> nat \<Rightarrow> string" where
  "fmtCny N L v decimals =
     (let n = Number N v in if \<not> isFinite n then dash else fmtNum N L (VNum n) decimals)"

definition fmtSignedCny :: "(jsval \<Rightarrow> jsnum) \<Rightarrow> (rat \<Rightarrow> nat \<Rightarrow> string) \<Rightarrow> jsval \<Rightarrow> nat \<Rightarrow> string" where
  "fmtSignedCny N L v decimals =
     (case Number N v of
        Fin q \<Rightarrow>
          (if 0 < q then ''+'' else if q < 0 then minus_sign else []) @ fmtNum N L (VNum (Fin \<bar>q\<bar>)) decimals
      | _ \<Rightarrow> dash)"

definition fmtPct :: "(jsval \<Rightarrow> jsnum) \<Rightarrow> (rat \<Rightarrow> nat \<Rightarrow> string) \<Rightarrow> jsval \<Rightarrow> nat \<Rightarrow> string" where
  "fmtPct N L v decimals =
     (let n = Number N v in if \<not> isFinite n then dash else fmtNum N L (VNum n) decimals @ ''%'')"

section \<open>Weights on screen (BucketCard, AllocationPanel)\<close>

text \<open>
  \<^verbatim>\<open>CategoryView\<close> as the overview receives it; the weights are fractions of one.
\<close>

record category_view =
  cv_name :: string
  cv_status :: string
  cv_value :: jsval
  cv_weight :: jsval
  cv_target_weight :: jsval
  cv_min_weight :: jsval
  cv_max_weight :: jsval

text \<open>\<^verbatim>\<open>(Number(w) || 0) * 100\<close>\<close>

definition weight_percent :: "(jsval \<Rightarrow> jsnum) \<Rightarrow> jsval \<Rightarrow> jsnum" where
  "weight_percent N w = js_mul (num_or_zero (Number N w)) (Fin 100)"

text \<open>
  The texts \<^verbatim>\<open>BucketCard\<close> shows for one bucket:
  \<^verbatim>\<open>
    fmtPct((Number(c.weight) || 0) * 100, 1)
    fmtPct((Number(c.target_weight) || 0) * 100, 0)
    fmtPct((Number(c.min_weight) || 0) * 100, 0)  ~  fmtPct((Number(c.max_weight) || 0) * 100, 0)
    fmtCny(c.value, 2)
  \<close>
\<close>

record bucket_card =
  bc_warn :: bool
  bc_weight :: string
  bc_target :: string
  bc_min :: string
  bc_max :: string
  bc_value :: string

definition BucketCard :: "(jsval \<Rightarrow> jsnum) \<Rightarrow> (rat \<Rightarrow> nat \<Rightarrow> string) \<Rightarrow> category_view \<Rightarrow> bucket_card" where
  "BucketCard N L c =
     \<lparr>bc_warn = (cv_status c = ''warn''),
      bc_weight = fmtPct N L (VNum (weight_percent N (cv_weight c))) 1,
      bc_target = fmtPct N L (VNum (weight_percent N (cv_target_weight c))) 0,
      bc_min = fmtPct N L (VNum (weight_percent N (cv_min_weight c))) 0,
      bc_max = fmtPct N L (VNum (weight_percent N (cv_max_weight c))) 0,
      bc_value = fmtCny N L (cv_value c) 2\<rparr>"

text \<open>
  One row of the suggestion table in \<^verbatim>\<open>AllocationPanel\<close>:
  \<^verbatim>\<open>
    fmtPct((Number(c.current_weight) || 0) * 100, 1)
    fmtCny(c.allocate_amount, 2)
    fmtPct((Number(c.weight_after) || 0) * 100, 1)
    fmtCny(c.target_value_after, 2)
  \<close>
\<close>

record allocation_row =
  row_current_weight :: string
  row_allocate_amount :: string
  row_weight_after :: string
  row_target_value_after :: string

definition AllocationRow :: "(jsval \<Rightarrow> jsnum) \<Rightarrow> (rat \<Rightarrow> nat \<Rightarrow> string) \<Rightarrow> category_suggestion \<Rightarrow> allocation_row" where
  "AllocationRow N L c =
     \<lparr>row_current_weight = fmtPct N L (VNum (weight_percent N (current_weight c))) 1,
      row_allocate_amount = fmtCny N L (allocate_amount c) 2,
      row_weight_after = fmtPct N L (VNum (weight_percent N (weight_after c))) 1,
      row_target_value_after = fmtCny N L (target_value_after c) 2\<rparr>"

text \<open>The claim's wording: a fraction shown as a percentage is the text of 100 times it.\<close>

definition percent_text :: "(rat \<Rightarrow> nat \<Rightarrow> string) \<Rightarrow> rat \<Rightarrow> nat \<Rightarrow> string" where
  "percent_text L q decimals = finite_text L (100 * q) decimals @ ''%''"

text \<open>
  What the claim says a weight looks like on screen: the percentage of the fraction it
  converts to, of 0 when it converts to no number, and the dash when it is infinite.
\<close>

definition shown_weight :: "(jsval \<Rightarrow> jsnum) \<Rightarrow> (rat \<Rightarrow> nat \<Rightarrow> string) \<Rightarrow> jsval \<Rightarrow> nat \<Rightarrow> string" where
  "shown_weight N L w decimals =
     (case Number N w of
        Fin q \<Rightarrow> percent_text L q decimals
      | NaN \<Rightarrow> percent_text L 0 decimals
      | _ \<Rightarrow> dash)"

section \<open>The ledger page (LedgerPage)\<close>

text \<open>
  The four figures of \<^verbatim>\<open>LedgerMetricsPayload\<close>, for the portfolio total and for each
  asset; \<^verbatim>\<open>xirr_annual\<close> is a number or \<^verbatim>\<open>null\<close>.
\<close>

record ledger_metrics =
  lm_principal :: jsval
  lm_current_value :: jsval
  lm_profit :: jsval
  lm_xirr_annual :: jsval

text \<open>
  A row of the per-asset table:
  \<^verbatim>\<open>
    const p = Number(a.profit || 0);
    const x = a.xirr_annual == null ? null : Number(a.xirr_annual) * 100;
    ... fmtCny(a.principal, 2) ... fmtCny(a.current_value, 2) ... fmtSignedCny(p, 2) ...
    {x == null ? DASH : fmtPct(x, 2)}
  \<close>
\<close>

record asset_row =
  ar_principal :: string
  ar_current_value :: string
  ar_profit :: string
  ar_xirr :: string

definition AssetRow :: "(jsval \<Rightarrow> jsnum) \<Rightarrow> (rat \<Rightarrow> nat \<Rightarrow> string) \<Rightarrow> ledger_metrics \<Rightarrow> asset_row" where
  "AssetRow N L a =
     (let p = Number N (if truthy (lm_profit a) then lm_profit a else VNum (Fin 0)) in
      \<lparr>ar_principal = fmtCny N L (lm_principal a) 2,
       ar_current_value = fmtCny N L (lm_current_value a) 2,
       ar_profit = fmtSignedCny N L (VNum p) 2,
       ar_xirr = (if nullish (lm_xirr_annual a) then dash
                  else fmtPct N L (VNum (js_mul (Number N (lm_xirr_annual a)) (Fin 100))) 2)\<rparr>)"

text \<open>
  The card of the portfolio total:
  \<^verbatim>\<open>
    const total = metricsQ.data?.total ?? null;
    const profit = total?.profit == null ? null : Number(total.profit);
    const xirr = total?.xirr_annual == null ? null : Number(total.xirr_annual) * 100;
    const showProfit =
      total != null &&
      (xirr != null || Number(total.principal ?? 0) !== 0 || Number(total.current_value ?? 0) !== 0
        || Number(total.profit ?? 0) !== 0);
    ... fmtCny(total?.current_value, 2) ...
    {showProfit ? fmtSignedCny(profit, 2) : DASH}
    {showProfit && xirr != null ? <span>({fmtPct(xirr, 2)})</span> : null}
    ... fmtCny(total?.principal, 2) ...
  \<close>
  \<open>tc_xirr\<close> is \<open>None\<close> when the span is not rendered.
\<close>

record total_card =
  tc_current_value :: string
  tc_profit :: string
  tc_xirr :: "string option"
  tc_principal :: string

definition or_default_zero :: "jsval \<Rightarrow> jsval" where
  "or_default_zero v = (if nullish v then VNum (Fin 0) else v)"

definition showProfit :: "(jsval \<Rightarrow> jsnum) \<Rightarrow> ledger_metrics option \<Rightarrow> bool" where
  "showProfit N tot =
     (case tot of
        None \<Rightarrow> False
      | Some t \<Rightarrow>
          \<not> nullish (lm_xirr_annual t)
          \<or> Number N (or_default_zero (lm_principal t)) \<noteq> Fin 0
          \<or> Number N (or_default_zero (lm_current_value t)) \<noteq> Fin 0
          \<or> Number N (or_default_zero (lm_profit t)) \<noteq> Fin 0)"

definition TotalCard :: "(jsval \<Rightarrow> jsnum) \<Rightarrow> (rat \<Rightarrow> nat \<Rightarrow> string) \<Rightarrow> ledger_metrics option \<Rightarrow> total_card" where
  "TotalCard N L tot =
     (let fld = (\<lambda>f. case tot of None \<Rightarrow> VUndefined | Some t \<Rightarrow> f t);
          profit = (if nullish (fld lm_profit) then VNull else VNum (Number N (fld lm_profit)));
          xirr = (if nullish (fld lm_xirr_annual) then VNull
                  else VNum (js_mul (Number N (fld lm_xirr_annual)) (Fin 100)))
      in \<lparr>tc_current_value = fmtCny N L (fld lm_current_value) 2,
          tc_profit = (if showProfit N tot then fmtSignedCny N L profit 2 else dash),
          tc_xirr = (if showProfit N tot \<and> \<not> nullish xirr
                     then Some (''('' @ fmtPct N L xirr 2 @ '')'') else None),
          tc_principal = fmtCny N L (fld lm_principal) 2\<rparr>)"

section \<open>Grouping assets by bucket (AssetsPage, byCategory)\<close>

text \<open>\<^verbatim>\<open>Category\<close> and \<^verbatim>\<open>PortfolioAsset\<close> of lib/types.ts, with the fields the page reads.\<close>

record category =
  cat_id :: string
  cat_name :: string

record portfolio_asset =
  pa_id :: string
  pa_kind :: string
  pa_code :: "string option"
  pa_name :: "string option"
  pa_coingecko_id :: "string option"
  pa_category_id :: "string option"

text \<open>
  \<^verbatim>\<open>String.prototype.trim\<close> removes white space and line terminators at both ends:
  U+0009 to U+000D, U+0020, U+00A0, U+1680, U+2000 to U+200A, U+2028, U+2029, U+202F,
  U+205F, U+3000 and U+FEFF, here as their UTF-8 bytes.
\<close>

definition ws1 :: "char \<Rightarrow> bool" where
  "ws1 c = (c \<in> set [CHR 0x09, CHR 0x0A, CHR 0x0B, CHR 0x0C, CHR 0x0D, CHR 0x20])"

definition ws2 :: "char \<Rightarrow> char \<Rightarrow> bool" where
  "ws2 c d = (c = CHR 0xC2 \<and> d = CHR 0xA0)"

definition ws3 :: "char \<Rightarrow> char \<Rightarrow> char \<Rightarrow> bool" where
  "ws3 c d e =
     ((c = CHR 0xE1 \<and> d = CHR 0x9A \<and> e = CHR 0x80)
      \<or> (c = CHR 0xE2 \<and> d = CHR 0x80
          \<and> e \<in> set [CHR 0x80, CHR 0x81, CHR 0x82, CHR 0x83, CHR 0x84, CHR 0x85, CHR 0x86,
                       CHR 0x87, CHR 0x88, CHR 0x89, CHR 0x8A, CHR 0xA8, CHR 0xA9, CHR 0xAF])
      \<or> (c = CHR 0xE2 \<and> d = CHR 0x81 \<and> e = CHR 0x9F)
      \<or> (c = CHR 0xE3 \<and> d = CHR 0x80 \<and> e = CHR 0x80)
      \<or> (c = CHR 0xEF \<and> d = CHR 0xBB \<and> e = CHR 0xBF))"

fun trim_start :: "string \<Rightarrow> string" where
  "trim_start [] = []"
| "trim_start [c] = (if ws1 c then [] else [c])"
| "trim_start [c, d] =
     (if ws1 c then trim_start [d] else if ws2 c d then [] else [c, d])"
| "trim_start (c # d # e # s) =
     (if ws1 c then trim_start (d # e # s)
      else if ws2 c d then trim_start (e # s)
      else if ws3 c d e then trim_start s
      else c # d # e # s)"

text \<open>The same from the end, on the reversed text: the bytes of a character arrive last first.\<close>

fun trim_end_rev :: "string \<Rightarrow> string" where
  "trim_end_rev [] = []"
| "trim_end_rev [c] = (if ws1 c then [] else [c])"
| "trim_end_rev [d, c] =
     (if ws1 d then trim_end_rev [c] else if ws2 c d then [] else [d, c])"
| "trim_end_rev (e # d # c # s) =
     (if ws1 e then trim_end_rev (d # c # s)
      else if ws2 d e then trim_end_rev (c # s)
      else if ws3 c d e then trim_end_rev s
      else e # d # c # s)"

definition trim :: "string \<Rightarrow> string" where
  "trim s = rev (trim_end_rev (rev (trim_start s)))"

text \<open>\<^verbatim>\<open>(a.category_id || "").trim()\<close>\<close>

definition trimmed_category_id :: "portfolio_asset \<Rightarrow> string" where
  "trimmed_category_id a = trim (case pa_category_id a of None \<Rightarrow> [] | Some s \<Rightarrow> s)"

text \<open>
  \<^verbatim>\<open>
  function labelOf(a: PortfolioAsset) {
    return (a.name || a.code || a.coingecko_id || (a.kind === "cash" ? CASH : a.id)).trim();
  }
  \<close>
  \<^verbatim>\<open>CASH\<close> is the two characters U+73B0 U+91D1.
\<close>

definition cash_label :: string where
  "cash_label = [CHR 0xE7, CHR 0x8E, CHR 0xB0, CHR 0xE9, CHR 0x87, CHR 0x91]"

definition nonempty :: "string option \<Rightarrow> bool" where
  "nonempty x = (x \<noteq> None \<and> x \<noteq> Some [])"

definition labelOf :: "portfolio_asset \<Rightarrow> string" where
  "labelOf a =
     trim (if nonempty (pa_name a) then the (pa_name a)
           else if nonempty (pa_code a) then the (pa_code a)
           else if nonempty (pa_coingecko_id a) then the (pa_coingecko_id a)
           else if pa_kind a = ''cash'' then cash_label
           else pa_id a)"

text \<open>
  \<^verbatim>\<open>xs.sort((x, y) => labelOf(x).localeCompare(labelOf(y), "zh-CN"))\<close>. The comparison
  \<open>lc\<close> is the host's; the sort is stable, and is modelled as the insertion sort that puts
  an element before the first one it does not compare above. Nothing proved here depends on more
  than the result being a rearrangement of the array.
\<close>

fun sort_insert :: "(string \<Rightarrow> string \<Rightarrow> int) \<Rightarrow> portfolio_asset \<Rightarrow> portfolio_asset list \<Rightarrow> portfolio_asset list" where
  "sort_insert lc a [] = [a]"
| "sort_insert lc a (b # bs) =
     (if lc (labelOf a) (labelOf b) \<le> 0 then a # b # bs else b # sort_insert lc a bs)"

definition sort_by_label :: "(string \<Rightarrow> string \<Rightarrow> int) \<Rightarrow> portfolio_asset list \<Rightarrow> portfolio_asset list" where
  "sort_by_label lc xs = foldr (sort_insert lc) xs []"

text \<open>
  \<^verbatim>\<open>
  const byCategory = useMemo(() => {
    const map: Record<string, PortfolioAsset[]> = {};
    for (const c of categories) map[c.id] = [];
    const unassigned: PortfolioAsset[] = [];
    for (const a of assets) {
      const cid = (a.category_id || "").trim();
      if (cid && map[cid]) map[cid].push(a);
      else unassigned.push(a);
    }
    for (const k of Object.keys(map)) map[k].sort(...);
    unassigned.sort(...);
    return { map, unassigned };
  }, [assets, categories]);
  \<close>
  \<^verbatim>\<open>map\<close> is an object literal, so \<^verbatim>\<open>map[cid]\<close> also finds what the object inherits.
  The model keeps the own properties (one array per bucket id) and the prototype: it is
  \<^verbatim>\<open>Object.prototype\<close> (\<open>None\<close>) until a bucket is called \<^verbatim>\<open>__proto__\<close>, for which the
  assignment \<^verbatim>\<open>map[c.id] = []\<close> runs the inherited setter and makes the new array the
  prototype (\<open>Some\<close> of its elements) instead of creating an own property.
\<close>

record bucket_map =
  own_groups :: "(string \<times> portfolio_asset list) list"
  proto_group :: "portfolio_asset list option"

definition assign_empty :: "bucket_map \<Rightarrow> category \<Rightarrow> bucket_map" where
  "assign_empty m c =
     (if cat_id c = ''__proto__'' then m\<lparr>proto_group := Some []\<rparr>
      else m\<lparr>own_groups := AList.update (cat_id c) [] (own_groups m)\<rparr>)"

text \<open>The string members of \<^verbatim>\<open>Array.prototype\<close> (ECMAScript 2023) other than \<^verbatim>\<open>length\<close>.\<close>

definition array_prototype_names :: "string list" where
  "array_prototype_names =
     [''at'', ''concat'', ''copyWithin'', ''entries'', ''every'', ''fill'', ''filter'', ''find'',
      ''findIndex'', ''findLast'', ''findLastIndex'', ''flat'', ''flatMap'', ''forEach'',
      ''includes'', ''indexOf'', ''join'', ''keys'', ''lastIndexOf'', ''map'', ''pop'', ''push'',
      ''reduce'', ''reduceRight'', ''reverse'', ''shift'', ''slice'', ''some'', ''sort'', ''splice'',
      ''toReversed'', ''toSorted'', ''toSpliced'', ''unshift'', ''values'', ''with'']"

text \<open>The decimal name of an array index.\<close>

function index_name :: "nat \<Rightarrow> string" where
  "index_name n =
     (if n < 10 then [char_of (48 + n)]
      else index_name (n div 10) @ [char_of (48 + n mod 10)])"
  by pat_completeness auto
termination
  by (relation "measure (\<lambda>n. n)") auto

declare index_name.simps [simp del]

text \<open>
  What \<^verbatim>\<open>map[cid]\<close> finds: the bucket's own array; the array that is the prototype;
  some other truthy value (an inherited function or object, an element or the non-zero
  length of the prototype array), which has no \<^verbatim>\<open>push\<close>; or nothing truthy.
\<close>

datatype slot = Own "portfolio_asset list" | Proto "portfolio_asset list" | Foreign | Nothing

definition lookup_slot :: "bucket_map \<Rightarrow> string \<Rightarrow> slot" where
  "lookup_slot m cid =
     (case map_of (own_groups m) cid of
        Some xs \<Rightarrow> Own xs
      | None \<Rightarrow>
          (case proto_group m of
             None \<Rightarrow> if cid \<in> set object_prototype_names then Foreign else Nothing
           | Some ys \<Rightarrow>
               if cid = ''__proto__'' then Proto ys
               else if cid = ''length'' then (if ys = [] then Nothing else Foreign)
               else if cid \<in> set (map index_name [0..<length ys]) then Foreign
               else if cid \<in> set array_prototype_names \<or> cid \<in> set object_prototype_names
               then Foreign
               else Nothing))"

text \<open>
  The body of the second loop. Calling \<^verbatim>\<open>push\<close> on a value that has none throws a
  TypeError, which leaves the callback.
\<close>

definition place :: "bucket_map \<times> portfolio_asset list \<Rightarrow> portfolio_asset \<Rightarrow> js_error + bucket_map \<times> portfolio_asset list" where
  "place mu a =
     (let m = fst mu; unassigned = snd mu; cid = trimmed_category_id a in
      if cid = [] then Inr (m, unassigned @ [a])
      else case lookup_slot m cid of
        Own xs \<Rightarrow> Inr (m\<lparr>own_groups := AList.update cid (xs @ [a]) (own_groups m)\<rparr>, unassigned)
      | Proto ys \<Rightarrow> Inr (m\<lparr>proto_group := Some (ys @ [a])\<rparr>, unassigned)
      | Foreign \<Rightarrow> Inl TypeError
      | Nothing \<Rightarrow> Inr (m, unassigned @ [a]))"

fun place_all :: "bucket_map \<times> portfolio_asset list \<Rightarrow> portfolio_asset list \<Rightarrow> js_error + bucket_map \<times> portfolio_asset list" where
  "place_all mu [] = Inr mu"
| "place_all mu (a # as) =
     (case place mu a of Inl e \<Rightarrow> Inl e | Inr mu' \<Rightarrow> place_all mu' as)"

record by_category =
  bc_map :: bucket_map
  bc_unassigned :: "portfolio_asset list"

definition empty_buckets :: "category list \<Rightarrow> bucket_map" where
  "empty_buckets categories = foldl assign_empty \<lparr>own_groups = [], proto_group = None\<rparr> categories"

definition byCategory :: "(string \<Rightarrow> string \<Rightarrow> int) \<Rightarrow> category list \<Rightarrow> portfolio_asset list \<Rightarrow> js_error + by_category" where
  "byCategory lc categories assets =
     (case place_all (empty_buckets categories, []) assets of
        Inl e \<Rightarrow> Inl e
      | Inr (m, unassigned) \<Rightarrow>
          Inr \<lparr>bc_map = m\<lparr>own_groups := map (\<lambda>(k, xs). (k, sort_by_label lc xs)) (own_groups m)\<rparr>,
               bc_unassigned = sort_by_label lc unassigned\<rparr>)"

text \<open>\<^verbatim>\<open>byCategory.map[c.id] || []\<close>, as the page reads the group of a bucket.\<close>

definition group_of :: "by_category \<Rightarrow> string \<Rightarrow> portfolio_asset list" where
  "group_of r k =
     (case lookup_slot (bc_map r) k of Own xs \<Rightarrow> xs | Proto ys \<Rightarrow> ys | _ \<Rightarrow> [])"

text \<open>All the assets the result holds, in its buckets and outside them.\<close>

definition grouped_assets :: "by_category \<Rightarrow> portfolio_asset list" where
  "grouped_assets r =
     concat (map snd (own_groups (bc_map r)))
     @ (case proto_group (bc_map r) of None \<Rightarrow> [] | Some ys \<Rightarrow> ys)
     @ bc_unassigned r"

text \<open>The assets held while the loop runs, as a multiset.\<close>

definition held :: "bucket_map \<times> portfolio_asset list \<Rightarrow> portfolio_asset multiset" where
  "held mu =
     mset (concat (map snd (own_groups (fst mu))))
     + mset (case proto_group (fst mu) of None \<Rightarrow> [] | Some ys \<Rightarrow> ys)
     + mset (snd mu)"

text \<open>
  The inputs on which no lookup leaves the buckets' own arrays: no bucket is called
  \<^verbatim>\<open>__proto__\<close>, and an asset whose trimmed \<open>category_id\<close> is the name of an inherited
  member belongs to a bucket of that name.
\<close>

definition ordinary_ids :: "category list \<Rightarrow> portfolio_asset list \<Rightarrow> bool" where
  "ordinary_ids cs as =
     (''__proto__'' \<notin> cat_id ` set cs
      \<and> (\<forall>a \<in> set as. trimmed_category_id a \<in> set object_prototype_names
                          \<longrightarrow> trimmed_category_id a \<in> cat_id ` set cs))"

text \<open>
  The grouping in the claim's words: an asset is in the bucket whose id is its trimmed
  \<open>category_id\<close>, and unassigned when that is empty or no bucket's id.
\<close>

definition in_bucket :: "string \<Rightarrow> portfolio_asset \<Rightarrow> bool" where
  "in_bucket k a = (k \<noteq> [] \<and> trimmed_category_id a = k)"

definition is_unassigned :: "category list \<Rightarrow> portfolio_asset \<Rightarrow> bool" where
  "is_unassigned cs a = (trimmed_category_id a = [] \<or> trimmed_category_id a \<notin> cat_id ` set cs)"

section \<open>The allocation engine, from the specification\<close>

text \<open>
  The engine (the suggester and the confirmation step behind \<^verbatim>\<open>/api/v2/allocation\<close>) is
  not among the sources of the web client. Its two operations below follow sections 4.4
  and 4.5 of the specification. Amounts of money are whole numbers of the smallest
  currency unit; weights and intermediate values are exact rationals.
\<close>

record bucket_state =
  bk_id :: string
  bk_value :: int
  bk_target_weight :: rat

record valued_view =
  vw_total_value :: int
  vw_categories :: "bucket_state list"

datatype engine_error = InvalidInput | InconsistentState

record bucket_allocation =
  ba_id :: string
  ba_current_weight :: rat
  ba_allocate_amount :: int
  ba_weight_after :: rat
  ba_target_value_after :: rat

record engine_suggestion =
  es_contribution_amount :: int
  es_buckets :: "bucket_allocation list"

text \<open>
  Modelled from the spec: steps 1 and 2 of the suggester, whose code is missing:
  \<open>total_after = total_value + contribution_amount\<close> and, for each bucket,
  \<open>target_value_after = target_weight \<times> total_after\<close>.
\<close>

definition target_value :: "valued_view \<Rightarrow> int \<Rightarrow> bucket_state \<Rightarrow> rat" where
  "target_value v c b = bk_target_weight b * of_int (vw_total_value v + c)"

text \<open>
  Modelled from the spec: step 3 of the suggester, whose code is missing: the raw deficit
  \<open>max(0, target_value_after \<minus> current_bucket_value)\<close>.
\<close>

definition raw_deficit :: "valued_view \<Rightarrow> int \<Rightarrow> bucket_state \<Rightarrow> rat" where
  "raw_deficit v c b = max 0 (target_value v c b - of_int (bk_value b))"

text \<open>
  Modelled from the spec: step 4 of the suggester, whose code is missing. When the raw
  deficits sum to more than the contribution they are scaled down proportionally;
  otherwise each bucket gets its deficit and a share of the rest proportional to its
  target weight (nothing when every target weight is 0).
\<close>

definition exact_shares :: "valued_view \<Rightarrow> int \<Rightarrow> rat list" where
  "exact_shares v c =
     (let bs = vw_categories v;
          deficit_sum = sum_list (map (raw_deficit v c) bs);
          weight_sum = sum_list (map bk_target_weight bs)
      in if of_int c < deficit_sum
         then map (\<lambda>b. raw_deficit v c b * of_int c / deficit_sum) bs
         else map (\<lambda>b. raw_deficit v c b
                      + (of_int c - deficit_sum)
                        * (if weight_sum = 0 then 0 else bk_target_weight b / weight_sum)) bs)"

text \<open>
  Modelled from the spec: "the bucket with the largest deficit" of step 6 of the suggester,
  whose code is missing: the position of the first largest element.
\<close>

fun largest_index :: "rat list \<Rightarrow> nat" where
  "largest_index [] = 0"
| "largest_index [x] = 0"
| "largest_index (x # y # ys) =
     (let j = largest_index (y # ys) in if (y # ys) ! j \<le> x then 0 else Suc j)"

text \<open>
  Modelled from the spec: the Allocation Suggester of section 4.4 at the level of buckets
  (steps 1 to 4 and 6), whose code is missing, for the amount that enters step 1. A
  contribution that is not positive is rejected as \<open>InvalidInput\<close> (section 7). The spec
  does not fix how a share is rounded to the smallest currency unit: the rounding is the
  parameter \<open>rnd\<close>. What the rounded shares leave of the contribution goes to the bucket
  with the largest deficit.
\<close>

definition rounded_shares :: "(rat \<Rightarrow> int) \<Rightarrow> valued_view \<Rightarrow> int \<Rightarrow> int list" where
  "rounded_shares rnd v c = map rnd (exact_shares v c)"

definition allocations :: "(rat \<Rightarrow> int) \<Rightarrow> valued_view \<Rightarrow> int \<Rightarrow> int list" where
  "allocations rnd v c =
     (let rounded = rounded_shares rnd v c;
          i = largest_index (map (raw_deficit v c) (vw_categories v))
      in if rounded = [] then []
         else rounded[i := rounded ! i + (c - sum_list rounded)])"

definition suggest :: "(rat \<Rightarrow> int) \<Rightarrow> valued_view \<Rightarrow> int \<Rightarrow> engine_error + engine_suggestion" where
  "suggest rnd v c =
     (if c \<le> 0 then Inl InvalidInput
      else Inr \<lparr>es_contribution_amount = c,
                es_buckets =
                  map (\<lambda>(b, a).
                         \<lparr>ba_id = bk_id b,
                          ba_current_weight =
                            (if vw_total_value v = 0 then 0
                             else of_int (bk_value b) / of_int (vw_total_value v)),
                          ba_allocate_amount = a,
                          ba_weight_after = of_int (bk_value b + a) / of_int (vw_total_value v + c),
                          ba_target_value_after = target_value v c b\<rparr>)
                      (zip (vw_categories v) (allocations rnd v c))\<rparr>)"

text \<open>
  Modelled from the spec: the amount the confirmation step of section 4.5 credits to one
  crypto asset, whose code is missing. \<open>actually_acquired = current_balance_value \<minus>
  baseline_value\<close>; the amount is \<open>min(expected, actually_acquired \<times> (1 + slippage_tolerance))\<close>
  and, as the same sentence and section 8 require, never a negative one. The tolerance is
  given in percent.
\<close>

definition actually_acquired :: "rat \<Rightarrow> rat \<Rightarrow> rat" where
  "actually_acquired current_value baseline_value = current_value - baseline_value"

definition prefill_amount :: "rat \<Rightarrow> rat \<Rightarrow> rat \<Rightarrow> rat \<Rightarrow> rat" where
  "prefill_amount expected baseline_value current_value slip_pct =
     max 0 (min expected (actually_acquired current_value baseline_value * (1 + slip_pct / 100)))"

text \<open>The formula of the claim, on its own.\<close>

definition described_prefill :: "rat \<Rightarrow> rat \<Rightarrow> rat \<Rightarrow> rat" where
  "described_prefill expected acquired tolerance = min expected (acquired * (1 + tolerance))"

section \<open>Example data\<close>

text \<open>
  A metadata map with a wallet-backed crypto asset, a crypto asset whose quantity was
  typed in by hand, and a listed fund; and a suggestion that names them.
\<close>

definition example_meta :: "string \<Rightarrow> asset_meta option" where
  "example_meta k =
     (if k = ''btc'' then Some \<lparr>meta_kind = ''crypto'', meta_source = Some ''evm-wallet'', meta_name = Some ''BTC''\<rparr>
      else if k = ''eth'' then Some \<lparr>meta_kind = ''crypto'', meta_source = Some ''coingecko+manual-quantity'', meta_name = None\<rparr>
      else if k = ''510300'' then Some \<lparr>meta_kind = ''cn'', meta_source = Some ''tencent'', meta_name = None\<rparr>
      else None)"

definition example_buy :: "string \<Rightarrow> rat \<Rightarrow> asset_buy" where
  "example_buy k q = \<lparr>asset_id = Some k, buy_name = [], buy_code = k, amount_cny = Fin q, est_quantity = None\<rparr>"

definition example_category :: "string \<Rightarrow> asset_buy list \<Rightarrow> category_suggestion" where
  "example_category k xs =
     \<lparr>category_id = k, cs_name = k, current_weight = VNum (Fin (1/4)), allocate_amount = VNum (Fin 0),
      weight_after = VNum (Fin (1/4)), target_value_after = VNum (Fin 0), cs_assets = Some xs\<rparr>"

definition example_suggestion :: contribution_suggestion where
  "example_suggestion =
     \<lparr>sg_categories =
        Some [example_category ''gold'' [example_buy ''btc'' 100, example_buy ''eth'' 50, example_buy ''btc'' 25],
              example_category ''equity'' [example_buy ''510300'' 300]],
      prefill_assets = None, contribution_remaining = VUndefined\<rparr>"

text \<open>A host conversion for the examples: the text \<^verbatim>\<open>1000\<close> reads as 1000, no other text is a number.\<close>

definition example_host :: "jsval \<Rightarrow> jsnum" where
  "example_host v = (if v = VStr ''1000'' then Fin 1000 else NaN)"

text \<open>The panel with 1000 typed into the amount field.\<close>

definition typed_1000 :: panel_state where
  "typed_1000 = initial_panel\<lparr>contribution := ''1000''\<rparr>"

text \<open>
  A first phase for 1000, up to the answer of the suggester; then with a snapshot that
  arrived, with a snapshot request that failed, and with a snapshot request answered by
  \<^verbatim>\<open>{"ok": false}\<close>, an object without \<^verbatim>\<open>assets\<close>.
\<close>

definition phase1_answered :: "panel_event list" where
  "phase1_answered = [Typed ''1000'', SuggestAnswered example_meta (Some example_suggestion) (Fin 1000)]"

definition phase1_events :: "panel_event list" where
  "phase1_events = phase1_answered @ [SnapshotSettled (SnapBody (Some [(''btc'', Fin 5000)]))]"

definition after_phase1 :: panel_state where
  "after_phase1 = panel_after example_host phase1_events"

definition after_failed_snapshot :: panel_state where
  "after_failed_snapshot = panel_after example_host (phase1_answered @ [SnapshotSettled SnapThrew])"

definition after_snapshot_without_assets :: panel_state where
  "after_snapshot_without_assets = panel_after example_host (phase1_answered @ [SnapshotSettled (SnapBody None)])"



text \<open>
  The metadata map that \<^verbatim>\<open>buildAssetMetaById\<close> builds from a view whose wallet-backed
  crypto assets have the ids \<^verbatim>\<open>constructor\<close> and \<^verbatim>\<open>__proto__\<close>:
  \<^verbatim>\<open>out["constructor"] = {...}\<close> makes an own property, and \<^verbatim>\<open>out["__proto__"] = {...}\<close>
  makes the record the prototype of the map, where the lookup \<^verbatim>\<open>metaById["__proto__"]\<close>
  finds it. And two suggestions that name these assets.
\<close>

definition inherited_meta :: "string \<Rightarrow> asset_meta option" where
  "inherited_meta k =
     (if k = ''constructor'' \<or> k = ''__proto__''
      then Some \<lparr>meta_kind = ''crypto'', meta_source = Some ''evm-wallet'', meta_name = Some ''Coin''\<rparr>
      else None)"

definition constructor_suggestion :: contribution_suggestion where
  "constructor_suggestion =
     \<lparr>sg_categories = Some [example_category ''gold'' [example_buy ''constructor'' 100]],
      prefill_assets = None, contribution_remaining = VUndefined\<rparr>"

definition proto_suggestion :: contribution_suggestion where
  "proto_suggestion =
     \<lparr>sg_categories = Some [example_category ''gold'' [example_buy ''__proto__'' 25]],
      prefill_assets = None, contribution_remaining = VUndefined\<rparr>"


text \<open>
  The texts of the numbers the examples format, as \<^verbatim>\<open>toLocaleString("zh-CN", ...)\<close>
  gives them.
\<close>

definition example_locale :: "rat \<Rightarrow> nat \<Rightarrow> string" where
  "example_locale q decimals =
     (if q = 10 then ''10.00'' else if q = 100 then ''100.00'' else if q = 110 then ''110.00''
      else if q = 382 / 10 then ''38.2'' else if q = 25 then ''25'' else ''0.00'')"

text \<open>A portfolio total with principal 100, value 110, profit 10 and no annualized return.\<close>

definition example_total :: ledger_metrics where
  "example_total =
     \<lparr>lm_principal = VNum (Fin 100), lm_current_value = VNum (Fin 110), lm_profit = VNum (Fin 10),
      lm_xirr_annual = VNull\<rparr>"

definition example_view :: category_view where
  "example_view =
     \<lparr>cv_name = ''gold'', cv_status = ''warn'', cv_value = VNum (Fin 110), cv_weight = VNum (Fin (382 / 1000)),
      cv_target_weight = VNum (Fin (1 / 4)), cv_min_weight = VStr ''n/a'', cv_max_weight = VNull\<rparr>"

text \<open>The four buckets of the project, an asset by its id and bucket, and a comparison that finds all labels equal.\<close>

definition four_buckets :: "category list" where
  "four_buckets =
     [\<lparr>cat_id = ''equity'', cat_name = ''Equity''\<rparr>, \<lparr>cat_id = ''cash'', cat_name = ''Cash''\<rparr>,
      \<lparr>cat_id = ''gold'', cat_name = ''Gold''\<rparr>, \<lparr>cat_id = ''bond'', cat_name = ''Bond''\<rparr>]"

definition example_asset :: "string \<Rightarrow> string option \<Rightarrow> portfolio_asset" where
  "example_asset i cid =
     \<lparr>pa_id = i, pa_kind = ''cash'', pa_code = None, pa_name = None, pa_coingecko_id = None,
      pa_category_id = cid\<rparr>"

definition example_compare :: "string \<Rightarrow> string \<Rightarrow> int" where
  "example_compare x y = 0"

definition three_assets :: "portfolio_asset list" where
  "three_assets =
     [example_asset ''a1'' (Some '' gold ''), example_asset ''a2'' (Some ''silver''), example_asset ''a3'' None]"

text \<open>
  A portfolio of 100000 whose four buckets, of equal target weight, hold 40000, 10000,
  20000 and 30000; a view with no bucket; and rounding down to the currency unit.
\<close>

definition uneven_view :: valued_view where
  "uneven_view =
     \<lparr>vw_total_value = 100000,
      vw_categories =
        [\<lparr>bk_id = ''equity'', bk_value = 40000, bk_target_weight = 1 / 4\<rparr>,
         \<lparr>bk_id = ''cash'', bk_value = 10000, bk_target_weight = 1 / 4\<rparr>,
         \<lparr>bk_id = ''gold'', bk_value = 20000, bk_target_weight = 1 / 4\<rparr>,
         \<lparr>bk_id = ''bond'', bk_value = 30000, bk_target_weight = 1 / 4\<rparr>]\<rparr>"

definition no_buckets :: valued_view where
  "no_buckets = \<lparr>vw_total_value = 0, vw_categories = []\<rparr>"

definition round_down :: "rat \<Rightarrow> int" where
  "round_down q = \<lfloor>q\<rfloor>"

section \<open>Properties\<close>

subsection \<open>Helper facts about the JavaScript model\<close>

lemma clamp_pct_Fin: "clamp_pct (Fin q) = Fin (max 0 (min 20 q))"
  by (auto simp: clamp_pct_def Math_max_def Math_min_def max_def min_def)

lemma isFinite_iff: "isFinite n \<longleftrightarrow> (\<exists>q. n = Fin q)"
  by (cases n) auto

lemma num_or_zero_Fin: "num_or_zero (Fin q) = Fin q"
  by (simp add: num_or_zero_def)

subsection \<open>readSlipPct\<close>

lemma override_part:
  "(let ov = js_opt_get s ''override'' in
      if truthy ov \<and> \<not> nullish (js_get ov ''crypto_slip_pct'')
         \<and> isFinite (Number N (js_get ov ''crypto_slip_pct''))
      then Some (Number N (js_get ov ''crypto_slip_pct'')) else None) = override_slip N s"
  unfolding override_slip_def js_opt_get_def Let_def
  by (cases s) (auto simp: isFinite_iff split: jsval.splits option.splits jsnum.splits)

lemma effective_part:
  "read_effective_slip N s = (case effective_slip N s of Some n \<Rightarrow> clamp_pct n | None \<Rightarrow> Fin 1)"
  unfolding read_effective_slip_def effective_slip_def js_opt_get_def Let_def
  by (cases s) (auto simp: isFinite_iff split: jsval.splits option.splits jsnum.splits)

lemma override_slip_Fin: "override_slip N s = Some n \<Longrightarrow> \<exists>q. n = Fin q"
  unfolding override_slip_def
  by (auto split: jsval.splits option.splits jsnum.splits intro: sym)

lemma effective_slip_Fin: "effective_slip N s = Some n \<Longrightarrow> \<exists>q. n = Fin q"
  unfolding effective_slip_def
  by (auto split: jsval.splits option.splits jsnum.splits intro: sym)

lemma readSlipPct_refines: "readSlipPct N s = slip_as_described N s"
proof -
  let ?o = "let ov = js_opt_get s ''override'' in
      if truthy ov \<and> \<not> nullish (js_get ov ''crypto_slip_pct'')
         \<and> isFinite (Number N (js_get ov ''crypto_slip_pct''))
      then Some (Number N (js_get ov ''crypto_slip_pct'')) else None"
  have "readSlipPct N s = (case ?o of Some n \<Rightarrow> clamp_pct n | None \<Rightarrow> read_effective_slip N s)"
    by (simp add: readSlipPct_def Let_def)
  also have "\<dots> = (case override_slip N s of Some n \<Rightarrow> clamp_pct n | None \<Rightarrow> read_effective_slip N s)"
    by (simp only: override_part)
  also have "\<dots> = slip_as_described N s"
    by (auto simp: slip_as_described_def effective_part clamp_pct_Fin
          dest!: override_slip_Fin effective_slip_Fin split: option.splits)
  finally show ?thesis .
qed

lemma slip_as_described_range: "\<exists>q. slip_as_described N s = Fin q \<and> 0 \<le> q \<and> q \<le> 20"
  by (auto simp: slip_as_described_def dest!: override_slip_Fin effective_slip_Fin split: option.splits)

text \<open>
  C9. For every settings payload, whatever it holds, \<open>readSlipPct\<close> returns a finite
  number between 0 and 20: the value of the override's \<open>crypto_slip_pct\<close> clamped to that
  interval when the field is present and converts to a finite number, otherwise the value
  of the effective \<open>crypto_slip_pct\<close> clamped when it converts to a finite number,
  otherwise 1.0. Finite is what \<^verbatim>\<open>Number.isFinite(Number(v))\<close> says, so a null in the
  effective settings counts as 0.
\<close>

theorem readSlipPct_in_range:
  "readSlipPct N settings = slip_as_described N settings
   \<and> (\<exists>q. readSlipPct N settings = Fin q \<and> 0 \<le> q \<and> q \<le> 20)"
  using readSlipPct_refines[of N settings] slip_as_described_range[of N settings] by simp

theorem readSlipPct_in_range_witness:
  "readSlipPct (\<lambda>v. NaN)
     (VObj [(''override'', VObj [(''crypto_slip_pct'', VNum (Fin 35))]), (''effective'', VObj [])])
   = Fin 20
   \<and> readSlipPct (\<lambda>v. NaN) (VObj [(''override'', VObj []), (''effective'', VObj [(''crypto_slip_pct'', VStr ''x'')])])
   = Fin 1"
  using readSlipPct_in_range[of "\<lambda>v. NaN"
          "VObj [(''override'', VObj [(''crypto_slip_pct'', VNum (Fin 35))]), (''effective'', VObj [])]"]
        readSlipPct_in_range[of "\<lambda>v. NaN"
          "VObj [(''override'', VObj []), (''effective'', VObj [(''crypto_slip_pct'', VStr ''x'')])]"]
  by (simp add: slip_as_described_def override_slip_def effective_slip_def)

subsection \<open>collectCryptoPrefill\<close>

lemma visit_asset_cases:
  "visit_asset M acc a =
     (if wallet_backed M a
      then acc\<lparr>cp_total := js_add (cp_total acc) (Fin (amount_of a)),
               cp_prefillAssets := bump_prefill (cp_prefillAssets acc) (the (asset_id a)) (Fin (amount_of a)),
               cp_items := cp_items acc @ [(item_name a (the (M (the (asset_id a)))), Fin (amount_of a))]\<rparr>
      else acc)"
  unfolding visit_asset_def wallet_backed_def amount_of_def Let_def
  by (cases "amount_cny a") (auto simp: num_or_zero_def split: option.splits)

lemma foldl_visit_total:
  "cp_total acc = Fin t \<Longrightarrow>
   cp_total (foldl (visit_asset M) acc xs) = Fin (t + sum_list (map amount_of (filter (wallet_backed M) xs)))"
  by (induction xs arbitrary: acc t) (auto simp: visit_asset_cases)

lemma foldl_visit_items:
  "cp_items (foldl (visit_asset M) acc xs) =
   cp_items acc @ map (\<lambda>a. (item_name a (the (M (the (asset_id a)))), Fin (amount_of a))) (filter (wallet_backed M) xs)"
  by (induction xs arbitrary: acc) (auto simp: visit_asset_cases)

lemma foldl_nested:
  "foldl (\<lambda>acc c. foldl f acc (g c)) acc cs = foldl f acc (concat (map g cs))"
  by (induction cs arbitrary: acc) auto

lemma bump_other: "k \<noteq> aid \<Longrightarrow> map_of (bump_prefill m aid amt) k = map_of m k"
  by (auto simp: bump_prefill_def update_conv' split: option.splits pfval.splits)

lemma bump_fresh:
  "aid \<notin> set object_prototype_names \<Longrightarrow> map_of m aid = None \<Longrightarrow>
   map_of (bump_prefill m aid (Fin q)) aid = Some (Amount (Fin q))"
  by (auto simp: bump_prefill_def update_conv')

lemma bump_again:
  "map_of m aid = Some (Amount (Fin s)) \<Longrightarrow>
   map_of (bump_prefill m aid (Fin q)) aid = Some (Amount (Fin (s + q)))"
  by (auto simp: bump_prefill_def update_conv' num_or_zero_Fin)

lemma foldl_visit_prefill_some:
  "map_of (cp_prefillAssets acc) k = Some (Amount (Fin s)) \<Longrightarrow>
   map_of (cp_prefillAssets (foldl (visit_asset M) acc xs)) k
     = Some (Amount (Fin (s + sum_list (credited M k xs))))"
proof (induction xs arbitrary: acc s)
  case Nil
  then show ?case by (simp add: credited_def)
next
  case (Cons a xs)
  show ?case
  proof (cases "wallet_backed M a \<and> asset_id a = Some k")
    case True
    then have "map_of (cp_prefillAssets (visit_asset M acc a)) k = Some (Amount (Fin (s + amount_of a)))"
      using Cons.prems by (simp add: visit_asset_cases bump_again)
    from Cons.IH[OF this] True show ?thesis by (simp add: credited_def add.assoc)
  next
    case False
    then have "map_of (cp_prefillAssets (visit_asset M acc a)) k = Some (Amount (Fin s))"
      using Cons.prems
      by (cases "asset_id a") (auto simp: visit_asset_cases bump_other wallet_backed_def)
    from Cons.IH[OF this] False show ?thesis by (auto simp: credited_def)
  qed
qed

lemma foldl_visit_prefill_none:
  "k \<notin> set object_prototype_names \<Longrightarrow> map_of (cp_prefillAssets acc) k = None \<Longrightarrow>
   map_of (cp_prefillAssets (foldl (visit_asset M) acc xs)) k =
     (if credited M k xs = [] then None else Some (Amount (Fin (sum_list (credited M k xs)))))"
proof (induction xs arbitrary: acc)
  case Nil
  then show ?case by (simp add: credited_def)
next
  case (Cons a xs)
  show ?case
  proof (cases "wallet_backed M a \<and> asset_id a = Some k")
    case True
    then have "map_of (cp_prefillAssets (visit_asset M acc a)) k = Some (Amount (Fin (amount_of a)))"
      using Cons.prems by (simp add: visit_asset_cases bump_fresh)
    from foldl_visit_prefill_some[OF this] True show ?thesis by (simp add: credited_def)
  next
    case False
    then have "map_of (cp_prefillAssets (visit_asset M acc a)) k = None"
      using Cons.prems
      by (cases "asset_id a") (auto simp: visit_asset_cases bump_other wallet_backed_def)
    from Cons.IH[OF Cons.prems(1) this] False show ?thesis by (auto simp: credited_def)
  qed
qed

lemma foldl_js_add_Fin: "foldl js_add (Fin t) (map Fin qs) = Fin (t + sum_list qs)"
  by (induction qs arbitrary: t) (simp_all add: add.assoc)

lemma collect_as_fold:
  "collectCryptoPrefill sug M =
     foldl (visit_asset M) \<lparr>cp_total = Fin 0, cp_items = [], cp_prefillAssets = []\<rparr> (suggested_entries sug)"
  by (simp add: collectCryptoPrefill_def suggested_entries_def foldl_nested)

text \<open>
  X5. For every suggestion and every metadata map, the items and the total that
  \<open>collectCryptoPrefill\<close> returns take a suggested amount exactly when the entry names an
  asset, the metadata knows it as crypto, its source does not contain
  \<^verbatim>\<open>manual-quantity\<close>, and the amount is finite and above zero (\<open>wallet_backed\<close>): the
  items are those entries, in their order and with their amounts, and the total is the sum
  of their amounts. The map of expected amounts is the subject of X3 and C5.
\<close>

theorem collectCryptoPrefill_expected:
  "cp_items (collectCryptoPrefill sug M)
     = map (\<lambda>a. (item_name a (the (M (the (asset_id a)))), amount_cny a)) (expected_entries sug M)
   \<and> cp_total (collectCryptoPrefill sug M) = Fin (sum_list (map amount_of (expected_entries sug M)))
   \<and> cp_total (collectCryptoPrefill sug M)
       = foldl js_add (Fin 0) (map snd (cp_items (collectCryptoPrefill sug M)))"
proof -
  have amt: "wallet_backed M a \<Longrightarrow> Fin (amount_of a) = amount_cny a" for a
    by (auto simp: wallet_backed_def amount_of_def split: option.splits jsnum.splits)
  have "cp_items (collectCryptoPrefill sug M)
          = map (\<lambda>a. (item_name a (the (M (the (asset_id a)))), Fin (amount_of a))) (expected_entries sug M)"
    by (simp add: collect_as_fold foldl_visit_items expected_entries_def)
  also have "\<dots> = map (\<lambda>a. (item_name a (the (M (the (asset_id a)))), amount_cny a)) (expected_entries sug M)"
    by (rule map_cong) (auto simp: expected_entries_def amt)
  finally have items: "cp_items (collectCryptoPrefill sug M)
     = map (\<lambda>a. (item_name a (the (M (the (asset_id a)))), amount_cny a)) (expected_entries sug M)" .
  have total: "cp_total (collectCryptoPrefill sug M) = Fin (sum_list (map amount_of (expected_entries sug M)))"
    using foldl_visit_total[of "\<lparr>cp_total = Fin 0, cp_items = [], cp_prefillAssets = []\<rparr>" 0 M "suggested_entries sug"]
    by (simp add: collect_as_fold expected_entries_def)
  have "map snd (cp_items (collectCryptoPrefill sug M)) = map (\<lambda>a. Fin (amount_of a)) (expected_entries sug M)"
    by (simp add: collect_as_fold foldl_visit_items expected_entries_def comp_def)
  then have "foldl js_add (Fin 0) (map snd (cp_items (collectCryptoPrefill sug M)))
               = Fin (sum_list (map amount_of (expected_entries sug M)))"
    using foldl_js_add_Fin[of 0 "map amount_of (expected_entries sug M)"] by (simp add: comp_def)
  with items total show ?thesis by simp
qed

lemma example_entries:
  "expected_entries (Some example_suggestion) example_meta = [example_buy ''btc'' 100, example_buy ''btc'' 25]"
  by (simp add: expected_entries_def suggested_entries_def categories_of_def example_suggestion_def
      assets_of_def example_category_def example_buy_def wallet_backed_def example_meta_def sublist_code)

lemma example_credited:
  "credited example_meta ''btc'' (suggested_entries (Some example_suggestion)) = [100, 25]"
  by (simp add: credited_def suggested_entries_def categories_of_def example_suggestion_def
      assets_of_def example_category_def example_buy_def wallet_backed_def example_meta_def sublist_code amount_of_def)

theorem collectCryptoPrefill_expected_witness:
  "cp_total (collectCryptoPrefill (Some example_suggestion) example_meta) = Fin 125
   \<and> map snd (cp_items (collectCryptoPrefill (Some example_suggestion) example_meta)) = [Fin 100, Fin 25]"
  using collectCryptoPrefill_expected[of "Some example_suggestion" example_meta]
  by (simp add: example_entries amount_of_def example_buy_def)

text \<open>
  X3. The map of expected amounts that goes into the second phase holds, under each asset
  id, the sum of the amounts taken for that asset, and no entry for an asset none was taken
  for. This is for an id that is not the name of a member of \<^verbatim>\<open>Object.prototype\<close>;
  under such a name \<^verbatim>\<open>+\<close> builds a string instead.
\<close>

theorem collectCryptoPrefill_per_asset:
  assumes "k \<notin> set object_prototype_names"
  shows "map_of (cp_prefillAssets (collectCryptoPrefill sug M)) k
          = (if credited M k (suggested_entries sug) = [] then None
             else Some (Amount (Fin (sum_list (credited M k (suggested_entries sug))))))"
  using foldl_visit_prefill_none[OF assms, of "\<lparr>cp_total = Fin 0, cp_items = [], cp_prefillAssets = []\<rparr>" M "suggested_entries sug"]
  by (simp add: collect_as_fold)

theorem collectCryptoPrefill_per_asset_witness:
  "map_of (cp_prefillAssets (collectCryptoPrefill (Some example_suggestion) example_meta)) ''btc''
     = Some (Amount (Fin 125))
   \<and> map_of (cp_prefillAssets (collectCryptoPrefill (Some example_suggestion) example_meta)) ''eth'' = None"
proof -
  have b: "''btc'' \<notin> set object_prototype_names" and e: "''eth'' \<notin> set object_prototype_names"
    by (simp_all add: object_prototype_names_def)
  have "credited example_meta ''eth'' (suggested_entries (Some example_suggestion)) = []"
    by (simp add: credited_def suggested_entries_def categories_of_def example_suggestion_def
        assets_of_def example_category_def example_buy_def wallet_backed_def example_meta_def sublist_code)
  then show ?thesis
    using collectCryptoPrefill_per_asset[OF b, of "Some example_suggestion" example_meta]
          collectCryptoPrefill_per_asset[OF e, of "Some example_suggestion" example_meta]
    by (simp add: example_credited)
qed

subsection \<open>The two phases of the allocation panel\<close>

lemma example_collect:
  "collectCryptoPrefill (Some example_suggestion) example_meta
     = \<lparr>cp_total = Fin 125, cp_items = [(''BTC'', Fin 100), (''BTC'', Fin 25)],
        cp_prefillAssets = [(''btc'', Amount (Fin 125))]\<rparr>"
  by (simp add: collectCryptoPrefill_def categories_of_def example_suggestion_def assets_of_def
      example_category_def example_buy_def visit_asset_def example_meta_def sublist_code Let_def
      num_or_zero_def bump_prefill_def object_prototype_names_def item_name_def)

lemma example_suggestion_fields:
  "prefill_assets example_suggestion = None" "contribution_remaining example_suggestion = VUndefined"
  by (simp_all add: example_suggestion_def)


lemma answered_fields:
  "contributionTotal (case confirm_onSuccess N sug st of Inl e \<Rightarrow> st | Inr st' \<Rightarrow> st') = contributionTotal st
   \<and> cryptoBaseline (case confirm_onSuccess N sug st of Inl e \<Rightarrow> st | Inr st' \<Rightarrow> st') = cryptoBaseline st
   \<and> expectedCrypto (case confirm_onSuccess N sug st of Inl e \<Rightarrow> st | Inr st' \<Rightarrow> st') = expectedCrypto st"
  by (auto simp: confirm_onSuccess_def Let_def split: option.splits)




lemma sync_fields:
  "contributionTotal (suggest_onSuccess_sync M sug amt st) = Some amt
   \<and> cryptoBaseline (suggest_onSuccess_sync M sug amt st) = cryptoBaseline st
   \<and> expectedCrypto (suggest_onSuccess_sync M sug amt st) =
       (if js_le (prefillSum st) (Fin 0)
        then (if js_lt (Fin 0) (cp_total (collectCryptoPrefill sug M))
              then Some (cp_prefillAssets (collectCryptoPrefill sug M)) else None)
        else expectedCrypto st)"
  by (simp add: suggest_onSuccess_sync_def Let_def)

lemma snapshot_fields:
  "contributionTotal (snapshot_done r st) = contributionTotal st
   \<and> cryptoBaseline (snapshot_done r st) = stored_baseline r
   \<and> expectedCrypto (snapshot_done r st) = expectedCrypto st"
  by (simp add: snapshot_done_def)

lemma cleared_fields:
  "contributionTotal (cleared st) = None \<and> cryptoBaseline (cleared st) = None
   \<and> expectedCrypto (cleared st) = None"
  by (simp add: cleared_def)

lemma panel_after_snoc: "panel_after N (evs @ [ev]) = panel_step N (panel_after N evs) ev"
  by (simp add: panel_after_def)

lemma panel_after_amount: "contributionTotal (panel_after N evs) = latest_amount (rev evs)"
proof (induction evs rule: rev_induct)
  case Nil
  then show ?case by (simp add: panel_after_def initial_panel_def)
next
  case (snoc ev evs)
  then show ?case
    by (cases ev) (simp_all add: panel_after_snoc sync_fields snapshot_fields cleared_fields answered_fields)
qed

lemma panel_after_snapshot: "cryptoBaseline (panel_after N evs) = latest_snapshot (rev evs)"
proof (induction evs rule: rev_induct)
  case Nil
  then show ?case by (simp add: panel_after_def initial_panel_def)
next
  case (snoc ev evs)
  then show ?case
    by (cases ev) (simp_all add: panel_after_snoc sync_fields snapshot_fields cleared_fields answered_fields)
qed


lemma showSuggest_valid:
  "showSuggest N st = Requested rq \<Longrightarrow> isFinite (sq_contribution rq) \<and> \<not> js_le (sq_contribution rq) (Fin 0)"
  by (auto simp: showSuggest_def Let_def suggest_request_of_def split: if_splits)

lemma showSuggest_typed_1000:
  "showSuggest example_host typed_1000 = Requested \<lparr>sq_contribution = Fin 1000, sq_prefill = None\<rparr>"
  by (simp add: showSuggest_def typed_amount_def typed_1000_def initial_panel_def example_host_def
      suggest_request_of_def)


text \<open>
  C6. An amount that is not a finite number above zero is turned away before anything is
  computed: \<open>showSuggest\<close> only warns and starts no request, and the confirmation fails
  with "invalid amount" before it builds its request.
\<close>

theorem invalid_amount_rejected:
  "(\<not> isFinite (typed_amount N st) \<or> js_le (typed_amount N st) (Fin 0) \<longrightarrow> showSuggest N st = WarnToast)
   \<and> (\<not> isFinite (baseAmount N st) \<or> js_le (baseAmount N st) (Fin 0)
        \<longrightarrow> confirmCryptoM N settings st = Inl (Error ''invalid amount''))"
  by (simp add: showSuggest_def confirmCryptoM_def Let_def)

theorem invalid_amount_rejected_witness:
  "showSuggest example_host initial_panel = WarnToast
   \<and> confirmCryptoM example_host VNull (after_phase1\<lparr>contributionTotal := Some (Fin (- 5))\<rparr>)
       = Inl (Error ''invalid amount'')
   \<and> confirmCryptoM example_host VNull (after_phase1\<lparr>contributionTotal := Some PosInf\<rparr>)
       = Inl (Error ''invalid amount'')"
  using invalid_amount_rejected[of example_host initial_panel VNull]
        invalid_amount_rejected[of example_host "after_phase1\<lparr>contributionTotal := Some (Fin (- 5))\<rparr>" VNull]
        invalid_amount_rejected[of example_host "after_phase1\<lparr>contributionTotal := Some PosInf\<rparr>" VNull]
  by (simp add: typed_amount_def baseAmount_def initial_panel_def)

text \<open>
  C3. The code departs from the claim when the snapshot request of the first phase is
  answered without assets (a body such as \<^verbatim>\<open>{"ok": false}\<close>, or an empty body): the
  baseline could not be captured, but \<^verbatim>\<open>(snap && snap.assets) || {}\<close> stores an empty object
  as the baseline, \<^verbatim>\<open>!cryptoBaseline\<close> is false for it, and the confirmation builds its
  request with the empty baseline, under which every balance counts as newly acquired.
  The \<^verbatim>\<open>catch\<close> beside it stores \<^verbatim>\<open>null\<close> for a request that threw, and the confirmation
  is then turned away with "missing baseline".
\<close>

theorem snapshot_without_assets_sent:
  "cryptoBaseline after_snapshot_without_assets = Some []
   \<and> confirm_offered example_meta after_snapshot_without_assets
   \<and> confirmCryptoM example_host VNull after_snapshot_without_assets
       = Inr \<lparr>rq_contribution = Fin 1000, rq_baseline = [],
              rq_expected = [(''btc'', Amount (Fin 125))], rq_slip_pct = Fin 1\<rparr>
   \<and> stored_baseline SnapNull = Some []
   \<and> cryptoBaseline after_failed_snapshot = None
   \<and> confirmCryptoM example_host VNull after_failed_snapshot = Inl (Error ''missing baseline'')"
  by (simp add: after_snapshot_without_assets_def after_failed_snapshot_def panel_after_def
      phase1_answered_def snapshot_done_def stored_baseline_def suggest_onSuccess_sync_def
      initial_panel_def prefillSum_def example_collect Let_def confirm_offered_def
      confirmCryptoM_def baseAmount_def readSlipPct_def read_effective_slip_def js_opt_get_def)

theorem snapshot_without_assets_sent_witness:
  "cryptoBaseline after_snapshot_without_assets \<noteq> None
   \<and> rq_baseline (projr (confirmCryptoM example_host VNull after_snapshot_without_assets)) = []
   \<and> confirmCryptoM example_host VNull after_snapshot_without_assets \<noteq> Inl (Error ''missing baseline'')"
  using snapshot_without_assets_sent by simp

text \<open>
  X4. With no baseline held, the confirmation never builds a request and never puts a
  baseline in its place: it fails with "missing baseline" when the base amount is a finite
  number above zero, and with "invalid amount", the check that comes first, when it is
  not. After a first phase that \<open>showSuggest\<close> started, while its snapshot request is
  pending on a panel that holds no earlier baseline, and after that request threw, the
  base amount is the amount of that phase, whatever is typed or answered afterwards, so
  the failure is "missing baseline".
\<close>

theorem missing_baseline_rejected:
  "(cryptoBaseline st = None \<longrightarrow>
      confirmCryptoM N settings st =
        (if isFinite (baseAmount N st) \<and> \<not> js_le (baseAmount N st) (Fin 0)
         then Inl (Error ''missing baseline'') else Inl (Error ''invalid amount'')))
   \<and> (showSuggest N st0 = Requested sq \<and> latest_amount (rev evs) = Some (sq_contribution sq)
        \<and> latest_snapshot (rev evs) = None \<longrightarrow>
        confirmCryptoM N settings (panel_after N evs) = Inl (Error ''missing baseline''))"
proof -
  have a: "cryptoBaseline st = None \<Longrightarrow>
      confirmCryptoM N settings st =
        (if isFinite (baseAmount N st) \<and> \<not> js_le (baseAmount N st) (Fin 0)
         then Inl (Error ''missing baseline'') else Inl (Error ''invalid amount''))"
    by (simp add: confirmCryptoM_def Let_def)
  have b: "confirmCryptoM N settings (panel_after N evs) = Inl (Error ''missing baseline'')"
    if "showSuggest N st0 = Requested sq" and "latest_amount (rev evs) = Some (sq_contribution sq)"
      and "latest_snapshot (rev evs) = None"
  proof -
    have "contributionTotal (panel_after N evs) = Some (sq_contribution sq)"
      "cryptoBaseline (panel_after N evs) = None"
      using that by (simp_all add: panel_after_amount panel_after_snapshot)
    then show ?thesis
      using showSuggest_valid[OF that(1)] by (simp add: confirmCryptoM_def Let_def baseAmount_def)
  qed
  from a b show ?thesis by blast
qed

theorem missing_baseline_rejected_witness:
  "cryptoBaseline after_failed_snapshot = None
   \<and> confirmCryptoM example_host VNull after_failed_snapshot = Inl (Error ''missing baseline'')
   \<and> confirmCryptoM example_host VNull
        (panel_after example_host (phase1_answered @ [SnapshotSettled SnapThrew, Typed ''5'']))
       = Inl (Error ''missing baseline'')
   \<and> confirmCryptoM example_host VNull (panel_after example_host phase1_answered)
       = Inl (Error ''missing baseline'')"
proof -
  have c: "cryptoBaseline after_failed_snapshot = None"
    by (simp add: after_failed_snapshot_def panel_after_def snapshot_done_def stored_baseline_def)
  have v: "isFinite (baseAmount example_host after_failed_snapshot)
           \<and> \<not> js_le (baseAmount example_host after_failed_snapshot) (Fin 0)"
    by (simp add: after_failed_snapshot_def panel_after_def phase1_answered_def snapshot_done_def
        suggest_onSuccess_sync_def Let_def baseAmount_def)
  from missing_baseline_rejected[of after_failed_snapshot example_host VNull typed_1000
          "\<lparr>sq_contribution = Fin 1000, sq_prefill = None\<rparr>"
          "phase1_answered @ [SnapshotSettled SnapThrew, Typed ''5'']"]
       missing_baseline_rejected[of after_failed_snapshot example_host VNull typed_1000
          "\<lparr>sq_contribution = Fin 1000, sq_prefill = None\<rparr>" phase1_answered]
  show ?thesis
    using c v by (simp add: showSuggest_typed_1000 phase1_answered_def stored_baseline_def)
qed






lemma inherited_wallet_backed:
  "wallet_backed inherited_meta (example_buy ''constructor'' 100)"
  "wallet_backed inherited_meta (example_buy ''__proto__'' 25)"
  by (simp_all add: wallet_backed_def inherited_meta_def example_buy_def sublist_code)

text \<open>
  C5. The code departs from the claim where an asset's id is the name of a member that every
  object inherits from \<^verbatim>\<open>Object.prototype\<close>. The accumulator \<^verbatim>\<open>prefillAssets\<close> is an object
  literal, and \<^verbatim>\<open>prefillAssets[aid] || 0\<close> reads the inherited member instead of 0. For
  the asset id \<^verbatim>\<open>constructor\<close> the entry meets every condition of the claim and is counted
  in the total and the items, but the map of expected amounts holds a string, not the
  amount. For the asset id \<^verbatim>\<open>__proto__\<close> the entry meets every condition and is counted, but
  the map has no entry at all: the panel offers the confirmation for a total of 25 and
  the confirmation then fails with "missing expected".
\<close>

theorem collectCryptoPrefill_inherited_name:
  "expected_entries (Some constructor_suggestion) inherited_meta = [example_buy ''constructor'' 100]
   \<and> collectCryptoPrefill (Some constructor_suggestion) inherited_meta
       = \<lparr>cp_total = Fin 100, cp_items = [(''Coin'', Fin 100)], cp_prefillAssets = [(''constructor'', Concat)]\<rparr>
   \<and> expected_entries (Some proto_suggestion) inherited_meta = [example_buy ''__proto__'' 25]
   \<and> collectCryptoPrefill (Some proto_suggestion) inherited_meta
       = \<lparr>cp_total = Fin 25, cp_items = [(''Coin'', Fin 25)], cp_prefillAssets = []\<rparr>
   \<and> confirmCryptoM example_host VNull
        (panel_after example_host
           [Typed ''1000'', SuggestAnswered inherited_meta (Some proto_suggestion) (Fin 1000),
            SnapshotSettled (SnapBody (Some [(''__proto__'', Fin 5000)]))])
       = Inl (Error ''missing expected'')"
proof -
  have c: "collectCryptoPrefill (Some constructor_suggestion) inherited_meta
       = \<lparr>cp_total = Fin 100, cp_items = [(''Coin'', Fin 100)], cp_prefillAssets = [(''constructor'', Concat)]\<rparr>"
    by (simp add: collectCryptoPrefill_def categories_of_def constructor_suggestion_def assets_of_def
        example_category_def example_buy_def visit_asset_def inherited_meta_def sublist_code Let_def
        num_or_zero_def bump_prefill_def object_prototype_names_def item_name_def)
  have p: "collectCryptoPrefill (Some proto_suggestion) inherited_meta
       = \<lparr>cp_total = Fin 25, cp_items = [(''Coin'', Fin 25)], cp_prefillAssets = []\<rparr>"
    by (simp add: collectCryptoPrefill_def categories_of_def proto_suggestion_def assets_of_def
        example_category_def example_buy_def visit_asset_def inherited_meta_def sublist_code Let_def
        num_or_zero_def bump_prefill_def object_prototype_names_def item_name_def)
  have ec: "expected_entries (Some constructor_suggestion) inherited_meta = [example_buy ''constructor'' 100]"
    by (simp add: expected_entries_def suggested_entries_def categories_of_def constructor_suggestion_def
        assets_of_def example_category_def inherited_wallet_backed)
  have ep: "expected_entries (Some proto_suggestion) inherited_meta = [example_buy ''__proto__'' 25]"
    by (simp add: expected_entries_def suggested_entries_def categories_of_def proto_suggestion_def
        assets_of_def example_category_def inherited_wallet_backed)
  have m: "confirmCryptoM example_host VNull
        (panel_after example_host
           [Typed ''1000'', SuggestAnswered inherited_meta (Some proto_suggestion) (Fin 1000),
            SnapshotSettled (SnapBody (Some [(''__proto__'', Fin 5000)]))])
       = Inl (Error ''missing expected'')"
    by (simp add: panel_after_def snapshot_done_def stored_baseline_def suggest_onSuccess_sync_def
        initial_panel_def prefillSum_def p Let_def confirmCryptoM_def baseAmount_def)
  from c p ec ep m show ?thesis by simp
qed

theorem collectCryptoPrefill_inherited_name_witness:
  "map_of (cp_prefillAssets (collectCryptoPrefill (Some constructor_suggestion) inherited_meta)) ''constructor''
     = Some Concat
   \<and> cp_total (collectCryptoPrefill (Some proto_suggestion) inherited_meta) = Fin 25
   \<and> map_of (cp_prefillAssets (collectCryptoPrefill (Some proto_suggestion) inherited_meta)) ''__proto__''
     = None"
  using collectCryptoPrefill_inherited_name by simp

subsection \<open>Weights and the ledger on screen\<close>

lemma fmtPct_weight: "fmtPct N L (VNum (weight_percent N w)) d = shown_weight N L w d"
  by (cases "Number N w")
     (auto simp: fmtPct_def weight_percent_def shown_weight_def num_or_zero_def fmtNum_def
        percent_text_def mult.commute Let_def)

text \<open>
  C8. Every weight the overview card and the suggestion table receive (the bucket's
  weight, its target, minimum and maximum weight, \<open>current_weight\<close>, \<open>weight_after\<close>) is
  shown as the percentage text of 100 times the fraction; a weight that converts to no
  number is shown as 0 percent. The raw fraction is never what is formatted.
\<close>

theorem weights_shown_as_percent:
  "bc_weight (BucketCard N L c) = shown_weight N L (cv_weight c) 1
   \<and> bc_target (BucketCard N L c) = shown_weight N L (cv_target_weight c) 0
   \<and> bc_min (BucketCard N L c) = shown_weight N L (cv_min_weight c) 0
   \<and> bc_max (BucketCard N L c) = shown_weight N L (cv_max_weight c) 0
   \<and> row_current_weight (AllocationRow N L s) = shown_weight N L (current_weight s) 1
   \<and> row_weight_after (AllocationRow N L s) = shown_weight N L (weight_after s) 1"
  by (simp add: BucketCard_def AllocationRow_def fmtPct_weight)

theorem weights_shown_as_percent_witness:
  "bc_weight (BucketCard example_host example_locale example_view) = ''38.2%''
   \<and> bc_target (BucketCard example_host example_locale example_view) = ''25%''
   \<and> bc_min (BucketCard example_host example_locale example_view) = ''0%''
   \<and> bc_max (BucketCard example_host example_locale example_view) = ''0%''"
  using weights_shown_as_percent[of example_host example_locale example_view]
  by (simp add: shown_weight_def example_view_def example_host_def percent_text_def finite_text_def
      strip_final_dot_def strip_fraction_zeros_def is_digit_def example_locale_def)

text \<open>
  C7, as the code has it. When \<open>xirr_annual\<close> is null, a row of the per-asset table shows
  the dash for the annualized return and still shows principal, current value and profit.
  The card of the portfolio total shows no annualized figure at all: the span is left out.
  It still shows principal and current value; it shows the profit when principal, current
  value or profit is not 0, and the dash in the profit's place when all three are 0.
  Nothing raises.
\<close>

theorem absent_xirr_rendering:
  "(nullish (lm_xirr_annual a) \<longrightarrow>
      ar_xirr (AssetRow N L a) = dash
      \<and> ar_principal (AssetRow N L a) = fmtCny N L (lm_principal a) 2
      \<and> ar_current_value (AssetRow N L a) = fmtCny N L (lm_current_value a) 2
      \<and> ar_profit (AssetRow N L a)
          = fmtSignedCny N L (VNum (Number N (if truthy (lm_profit a) then lm_profit a else VNum (Fin 0)))) 2)
   \<and> (nullish (lm_xirr_annual t) \<longrightarrow>
      tc_xirr (TotalCard N L (Some t)) = None
      \<and> tc_principal (TotalCard N L (Some t)) = fmtCny N L (lm_principal t) 2
      \<and> tc_current_value (TotalCard N L (Some t)) = fmtCny N L (lm_current_value t) 2
      \<and> tc_profit (TotalCard N L (Some t))
          = (if Number N (or_default_zero (lm_principal t)) \<noteq> Fin 0
                \<or> Number N (or_default_zero (lm_current_value t)) \<noteq> Fin 0
                \<or> Number N (or_default_zero (lm_profit t)) \<noteq> Fin 0
             then fmtSignedCny N L (if nullish (lm_profit t) then VNull else VNum (Number N (lm_profit t))) 2
             else dash))"
  by (simp add: AssetRow_def TotalCard_def showProfit_def Let_def)

theorem absent_xirr_rendering_witness:
  "ar_xirr (AssetRow example_host example_locale example_total) = dash
   \<and> ar_principal (AssetRow example_host example_locale example_total) = ''100''
   \<and> ar_current_value (AssetRow example_host example_locale example_total) = ''110''
   \<and> ar_profit (AssetRow example_host example_locale example_total) = ''+10''
   \<and> tc_xirr (TotalCard example_host example_locale (Some example_total)) = None"
  using absent_xirr_rendering[of example_total example_host example_locale example_total]
  by (simp add: example_total_def fmtSignedCny_def fmtCny_def fmtNum_def
      finite_text_def strip_final_dot_def strip_fraction_zeros_def is_digit_def example_locale_def)

text \<open>
  The claim as it was stated fails for the portfolio total: with principal 100, value 110,
  profit 10 and no annualized return, the card shows the three figures and no dash; the
  annualized figure is not rendered.
\<close>

theorem absent_xirr_total_counterexample:
  "nullish (lm_xirr_annual example_total)
   \<and> tc_xirr (TotalCard example_host example_locale (Some example_total)) = None
   \<and> tc_profit (TotalCard example_host example_locale (Some example_total)) = ''+10''
   \<and> tc_current_value (TotalCard example_host example_locale (Some example_total)) = ''110''
   \<and> tc_principal (TotalCard example_host example_locale (Some example_total)) = ''100''"
  by (simp add: TotalCard_def example_total_def showProfit_def Let_def or_default_zero_def
      fmtSignedCny_def fmtCny_def fmtNum_def finite_text_def strip_final_dot_def
      strip_fraction_zeros_def is_digit_def example_locale_def)

subsection \<open>byCategory\<close>

lemma trim_examples: "trim '' gold '' = ''gold''" "trim ''constructor'' = ''constructor''"
  by (simp_all add: trim_def ws1_def ws2_def ws3_def)

lemma empty_four_buckets:
  "empty_buckets four_buckets
     = \<lparr>own_groups = [(''equity'', []), (''cash'', []), (''gold'', []), (''bond'', [])], proto_group = None\<rparr>"
  by (simp add: empty_buckets_def four_buckets_def assign_empty_def)

lemma trimmed_constructor: "trimmed_category_id (example_asset i (Some ''constructor'')) = ''constructor''"
  by (simp add: trimmed_category_id_def example_asset_def trim_examples)

lemma lookup_constructor: "lookup_slot (empty_buckets four_buckets) ''constructor'' = Foreign"
  by (simp add: empty_four_buckets lookup_slot_def object_prototype_names_def)

text \<open>
  C10 fails on the code. An asset whose \<open>category_id\<close> is no bucket's id but the name of
  a member every object inherits (here \<^verbatim>\<open>constructor\<close>) is not put with the unassigned
  assets: \<^verbatim>\<open>map[cid]\<close> finds the inherited function, which is truthy and has no
  \<^verbatim>\<open>push\<close>, and the grouping throws.
\<close>

theorem byCategory_inherited_name_throws:
  "byCategory example_compare four_buckets [example_asset ''a1'' (Some ''constructor'')] = Inl TypeError"
  by (simp add: byCategory_def place_def trimmed_constructor lookup_constructor Let_def)

lemma mset_sort_insert: "mset (sort_insert lc a xs) = add_mset a (mset xs)"
  by (induction xs) auto

lemma mset_sort_by_label: "mset (sort_by_label lc xs) = mset xs"
  by (induction xs) (auto simp: sort_by_label_def mset_sort_insert)

lemma update_append:
  "map_of al k = Some xs \<Longrightarrow>
   mset (concat (map snd (AList.update k (xs @ [a]) al))) = add_mset a (mset (concat (map snd al)))"
  by (induction al) (auto split: if_splits)

lemma lookup_Own: "lookup_slot m cid = Own xs \<Longrightarrow> map_of (own_groups m) cid = Some xs"
  by (auto simp: lookup_slot_def split: option.splits if_splits)

lemma lookup_Proto: "lookup_slot m cid = Proto ys \<Longrightarrow> proto_group m = Some ys"
  by (auto simp: lookup_slot_def split: option.splits if_splits)

lemma place_held:
  assumes "place (m, un) a = Inr mu'"
  shows "held mu' = add_mset a (held (m, un))"
proof (cases "trimmed_category_id a = []")
  case True
  with assms show ?thesis by (auto simp: place_def held_def)
next
  case False
  show ?thesis
  proof (cases "lookup_slot m (trimmed_category_id a)")
    case (Own xs)
    with assms False lookup_Own[OF Own] show ?thesis
      by (auto simp: place_def held_def update_append)
  next
    case (Proto ys)
    with assms False lookup_Proto[OF Proto] show ?thesis
      by (auto simp: place_def held_def)
  next
    case Foreign
    with assms False show ?thesis by (simp add: place_def)
  next
    case Nothing
    with assms False show ?thesis by (auto simp: place_def held_def)
  qed
qed

lemma place_all_held: "place_all mu as = Inr mu' \<Longrightarrow> held mu' = held mu + mset as"
proof (induction as arbitrary: mu)
  case Nil
  then show ?case by simp
next
  case (Cons a as)
  then obtain mu1 where p: "place mu a = Inr mu1" and r: "place_all mu1 as = Inr mu'"
    by (auto split: sum.splits)
  from p have "held mu1 = add_mset a (held mu)" by (cases mu) (simp add: place_held)
  with Cons.IH[OF r] show ?case by simp
qed

lemma update_empty_none:
  "\<forall>p \<in> set al. snd p = [] \<Longrightarrow> \<forall>p \<in> set (AList.update k [] al). snd p = []"
  by (induction al) auto

lemma assign_empty_held: "held (m, []) = {#} \<Longrightarrow> held (assign_empty m c, []) = {#}"
  using update_empty_none[of "own_groups m" "cat_id c"]
  by (auto simp: assign_empty_def held_def split: option.splits)

lemma foldl_assign_empty_held:
  "held (m, []) = {#} \<Longrightarrow> held (foldl assign_empty m cs, []) = {#}"
  by (induction cs arbitrary: m) (simp_all add: assign_empty_held)

lemma empty_buckets_held: "held (empty_buckets cs, []) = {#}"
  unfolding empty_buckets_def by (rule foldl_assign_empty_held) (simp add: held_def)

lemma mset_sorted_groups:
  "mset (concat (map (snd \<circ> (\<lambda>(k, xs). (k, sort_by_label lc xs))) al)) = mset (concat (map snd al))"
  by (induction al) (auto simp: mset_sort_by_label)

text \<open>
  X1. Whenever the grouping returns, its buckets and the unassigned list together hold exactly
  the input assets, each once: no asset is dropped or doubled, and the counts add up.
\<close>

theorem byCategory_keeps_all:
  assumes "byCategory lc cs as = Inr r"
  shows "mset (grouped_assets r) = mset as \<and> length (grouped_assets r) = length as"
proof -
  from assms obtain m un where p: "place_all (empty_buckets cs, []) as = Inr (m, un)"
    and r: "r = \<lparr>bc_map = m\<lparr>own_groups := map (\<lambda>(k, xs). (k, sort_by_label lc xs)) (own_groups m)\<rparr>,
               bc_unassigned = sort_by_label lc un\<rparr>"
    by (auto simp: byCategory_def split: sum.splits prod.splits)
  from place_all_held[OF p] have "held (m, un) = mset as" by (simp add: empty_buckets_held)
  then have "mset (grouped_assets r) = mset as"
    by (simp add: r grouped_assets_def held_def mset_sorted_groups mset_sort_by_label ac_simps)
  then show ?thesis using mset_eq_length by blast
qed

lemma foldl_assign_empty_plain:
  "''__proto__'' \<notin> cat_id ` set cs \<Longrightarrow>
   proto_group (foldl assign_empty m cs) = proto_group m
   \<and> map_of (own_groups (foldl assign_empty m cs))
       = (\<lambda>k. if k \<in> cat_id ` set cs then Some [] else map_of (own_groups m) k)"
proof (induction cs arbitrary: m)
  case Nil
  then show ?case by simp
next
  case (Cons c cs)
  then have c: "cat_id c \<noteq> ''__proto__''" and cs: "''__proto__'' \<notin> cat_id ` set cs"
    by auto
  from Cons.IH[OF cs, of "assign_empty m c"] c show ?case
    by (auto simp: assign_empty_def update_conv' fun_eq_iff)
qed

lemma empty_buckets_plain:
  "''__proto__'' \<notin> cat_id ` set cs \<Longrightarrow>
   proto_group (empty_buckets cs) = None
   \<and> map_of (own_groups (empty_buckets cs)) = (\<lambda>k. if k \<in> cat_id ` set cs then Some [] else None)"
  using foldl_assign_empty_plain[of cs "\<lparr>own_groups = [], proto_group = None\<rparr>"]
  by (simp add: empty_buckets_def cong: if_cong)

lemma place_plain:
  assumes "proto_group m = None"
      and "trimmed_category_id a \<in> set object_prototype_names \<longrightarrow> map_of (own_groups m) (trimmed_category_id a) \<noteq> None"
  shows "\<exists>m'. place (m, un) a
                 = Inr (m', un @ filter (\<lambda>a. trimmed_category_id a = [] \<or> map_of (own_groups m) (trimmed_category_id a) = None) [a])
          \<and> proto_group m' = None
          \<and> (\<forall>k. map_of (own_groups m') k = map_option (\<lambda>xs. xs @ filter (in_bucket k) [a]) (map_of (own_groups m) k))"
proof (cases "trimmed_category_id a = []")
  case True
  with assms(1) show ?thesis
    by (auto simp: place_def in_bucket_def option.map_ident_strong)
next
  case False
  show ?thesis
  proof (cases "map_of (own_groups m) (trimmed_category_id a)")
    case None
    with assms False have "lookup_slot m (trimmed_category_id a) = Nothing"
      by (auto simp: lookup_slot_def)
    with None False assms(1) show ?thesis
      by (auto simp: place_def in_bucket_def option.map_ident_strong)
  next
    case (Some xs)
    then have "lookup_slot m (trimmed_category_id a) = Own xs"
      by (simp add: lookup_slot_def)
    with Some False assms(1) show ?thesis
      by (auto simp: place_def in_bucket_def update_conv' option.map_ident_strong)
  qed
qed

lemma place_all_plain:
  assumes "proto_group m = None"
      and "\<forall>a \<in> set as. trimmed_category_id a \<in> set object_prototype_names
                 \<longrightarrow> map_of (own_groups m) (trimmed_category_id a) \<noteq> None"
  shows "\<exists>m'. place_all (m, un) as
                 = Inr (m', un @ filter (\<lambda>a. trimmed_category_id a = [] \<or> map_of (own_groups m) (trimmed_category_id a) = None) as)
          \<and> proto_group m' = None
          \<and> (\<forall>k. map_of (own_groups m') k = map_option (\<lambda>xs. xs @ filter (in_bucket k) as) (map_of (own_groups m) k))"
  using assms
proof (induction as arbitrary: m un)
  case Nil
  then show ?case by (simp add: option.map_ident_strong)
next
  case (Cons a as)
  let ?out = "\<lambda>m a. trimmed_category_id a = [] \<or> map_of (own_groups m) (trimmed_category_id a) = None"
  from place_plain[OF Cons.prems(1), of a un] Cons.prems(2)
  obtain m1 where p: "place (m, un) a = Inr (m1, un @ filter (?out m) [a])"
    and pr: "proto_group m1 = None"
    and mp: "\<forall>k. map_of (own_groups m1) k = map_option (\<lambda>xs. xs @ filter (in_bucket k) [a]) (map_of (own_groups m) k)"
    by auto
  have dom: "map_of (own_groups m1) k = None \<longleftrightarrow> map_of (own_groups m) k = None" for k
    using mp by simp
  have hyp: "\<forall>a \<in> set as. trimmed_category_id a \<in> set object_prototype_names
                 \<longrightarrow> map_of (own_groups m1) (trimmed_category_id a) \<noteq> None"
    using Cons.prems(2) dom by simp
  from Cons.IH[OF pr hyp, of "un @ filter (?out m) [a]"]
  obtain m' where r: "place_all (m1, un @ filter (?out m) [a]) as
                        = Inr (m', (un @ filter (?out m) [a]) @ filter (?out m1) as)"
    and pr': "proto_group m' = None"
    and mp': "\<forall>k. map_of (own_groups m') k = map_option (\<lambda>xs. xs @ filter (in_bucket k) as) (map_of (own_groups m1) k)"
    by blast
  have f: "filter (?out m1) as = filter (?out m) as"
    by (rule filter_cong) (simp_all add: dom)
  have mp'': "map_of (own_groups m') k = map_option (\<lambda>xs. xs @ filter (in_bucket k) (a # as)) (map_of (own_groups m) k)" for k
    using mp' mp by (cases "map_of (own_groups m) k") simp_all
  have "place_all (m, un) (a # as) = Inr (m', un @ filter (?out m) (a # as))"
    using p r f by simp
  with pr' mp'' show ?case by blast
qed

lemma map_of_sorted_groups:
  "map_of (map (\<lambda>(k, xs). (k, sort_by_label lc xs)) al) k = map_option (sort_by_label lc) (map_of al k)"
  by (induction al) auto

text \<open>
  X2. On inputs with ordinary ids the grouping returns, and it is the one the claim describes:
  the page finds under each bucket's id the assets whose trimmed \<open>category_id\<close> is that id,
  sorted by label, and every other asset (no id, an empty one, or one that no bucket has)
  is unassigned.
\<close>

theorem byCategory_groups:
  assumes "ordinary_ids cs as"
  shows "\<exists>r. byCategory lc cs as = Inr r
           \<and> (\<forall>c \<in> set cs. group_of r (cat_id c) = sort_by_label lc (filter (in_bucket (cat_id c)) as))
           \<and> bc_unassigned r = sort_by_label lc (filter (is_unassigned cs) as)
           \<and> proto_group (bc_map r) = None"
proof -
  from assms have np: "''__proto__'' \<notin> cat_id ` set cs"
    and inh: "\<forall>a \<in> set as. trimmed_category_id a \<in> set object_prototype_names
                          \<longrightarrow> trimmed_category_id a \<in> cat_id ` set cs"
    by (simp_all add: ordinary_ids_def)
  let ?m0 = "empty_buckets cs"
  from empty_buckets_plain[OF np]
  have p0: "proto_group ?m0 = None"
    and m0: "map_of (own_groups ?m0) = (\<lambda>k. if k \<in> cat_id ` set cs then Some [] else None)"
    by simp_all
  have hyp: "\<forall>a \<in> set as. trimmed_category_id a \<in> set object_prototype_names
                 \<longrightarrow> map_of (own_groups ?m0) (trimmed_category_id a) \<noteq> None"
    using inh by (simp add: m0)
  from place_all_plain[OF p0 hyp, of "[]"]
  obtain m' where pl: "place_all (?m0, []) as
        = Inr (m', filter (\<lambda>a. trimmed_category_id a = [] \<or> map_of (own_groups ?m0) (trimmed_category_id a) = None) as)"
    and pr: "proto_group m' = None"
    and mp: "\<forall>k. map_of (own_groups m') k = map_option (\<lambda>xs. xs @ filter (in_bucket k) as) (map_of (own_groups ?m0) k)"
    by auto
  have un: "filter (\<lambda>a. trimmed_category_id a = [] \<or> map_of (own_groups ?m0) (trimmed_category_id a) = None) as
              = filter (is_unassigned cs) as"
    by (rule filter_cong) (auto simp: m0 is_unassigned_def)
  let ?r = "\<lparr>bc_map = m'\<lparr>own_groups := map (\<lambda>(k, xs). (k, sort_by_label lc xs)) (own_groups m')\<rparr>,
             bc_unassigned = sort_by_label lc (filter (is_unassigned cs) as)\<rparr>"
  have res: "byCategory lc cs as = Inr ?r"
    using pl un by (simp add: byCategory_def)
  have grp: "group_of ?r (cat_id c) = sort_by_label lc (filter (in_bucket (cat_id c)) as)"
    if "c \<in> set cs" for c
  proof -
    have "map_of (own_groups m') (cat_id c) = Some (filter (in_bucket (cat_id c)) as)"
      using mp that by (simp add: m0)
    then show ?thesis
      by (simp add: group_of_def lookup_slot_def map_of_sorted_groups)
  qed
  from res grp pr show ?thesis by auto
qed


lemma three_assets_trimmed:
  "map trimmed_category_id three_assets = [''gold'', ''silver'', []]"
  by (simp add: three_assets_def trimmed_category_id_def example_asset_def trim_def ws1_def ws2_def ws3_def)

lemma three_assets_grouped:
  "byCategory example_compare four_buckets three_assets
     = Inr \<lparr>bc_map = \<lparr>own_groups = [(''equity'', []), (''cash'', []),
                                      (''gold'', [example_asset ''a1'' (Some '' gold '')]), (''bond'', [])],
                        proto_group = None\<rparr>,
            bc_unassigned = [example_asset ''a2'' (Some ''silver''), example_asset ''a3'' None]\<rparr>"
  using three_assets_trimmed
  by (simp add: byCategory_def empty_four_buckets place_def three_assets_def lookup_slot_def
      object_prototype_names_def Let_def sort_by_label_def example_compare_def)

theorem byCategory_keeps_all_witness:
  "length (grouped_assets
     \<lparr>bc_map = \<lparr>own_groups = [(''equity'', []), (''cash'', []),
                               (''gold'', [example_asset ''a1'' (Some '' gold '')]), (''bond'', [])],
                 proto_group = None\<rparr>,
      bc_unassigned = [example_asset ''a2'' (Some ''silver''), example_asset ''a3'' None]\<rparr>) = 3"
  using byCategory_keeps_all[OF three_assets_grouped] by (simp add: three_assets_def)

lemma three_assets_ordinary: "ordinary_ids four_buckets three_assets"
proof -
  have "set (map trimmed_category_id three_assets) \<inter> set object_prototype_names = {}"
    by (simp add: three_assets_trimmed object_prototype_names_def)
  then have "\<forall>a \<in> set three_assets. trimmed_category_id a \<notin> set object_prototype_names"
    by auto
  then show ?thesis
    by (simp add: ordinary_ids_def four_buckets_def)
qed

theorem byCategory_groups_witness:
  "\<exists>r. byCategory example_compare four_buckets three_assets = Inr r
      \<and> group_of r ''gold'' = [example_asset ''a1'' (Some '' gold '')]
      \<and> group_of r ''bond'' = []
      \<and> bc_unassigned r = [example_asset ''a2'' (Some ''silver''), example_asset ''a3'' None]"
proof -
  from byCategory_groups[OF three_assets_ordinary, of example_compare]
  obtain r where r: "byCategory example_compare four_buckets three_assets = Inr r"
    and g: "\<forall>c \<in> set four_buckets. group_of r (cat_id c) = sort_by_label example_compare (filter (in_bucket (cat_id c)) three_assets)"
    and u: "bc_unassigned r = sort_by_label example_compare (filter (is_unassigned four_buckets) three_assets)"
    by blast
  have t: "trimmed_category_id (example_asset ''a1'' (Some '' gold '')) = ''gold''"
    "trimmed_category_id (example_asset ''a2'' (Some ''silver'')) = ''silver''"
    "trimmed_category_id (example_asset ''a3'' None) = []"
    using three_assets_trimmed by (simp_all add: three_assets_def)
  have "group_of r ''gold'' = [example_asset ''a1'' (Some '' gold '')]"
    using g t by (simp add: four_buckets_def three_assets_def in_bucket_def sort_by_label_def)
  moreover have "group_of r ''bond'' = []"
    using g t by (simp add: four_buckets_def three_assets_def in_bucket_def sort_by_label_def)
  moreover have "bc_unassigned r = [example_asset ''a2'' (Some ''silver''), example_asset ''a3'' None]"
    using u t by (simp add: four_buckets_def three_assets_def is_unassigned_def sort_by_label_def example_compare_def)
  ultimately show ?thesis using r by blast
qed

subsection \<open>The allocation engine\<close>

lemma largest_index_bound: "xs \<noteq> [] \<Longrightarrow> largest_index xs < length xs"
  by (induction xs rule: largest_index.induct) (auto simp: Let_def)

lemma largest_index_max: "x \<in> set xs \<Longrightarrow> x \<le> xs ! largest_index xs"
proof (induction xs rule: largest_index.induct)
  case 1
  then show ?case by simp
next
  case (2 x)
  then show ?case by simp
next
  case (3 a y ys)
  show ?case
  proof (cases "(y # ys) ! largest_index (y # ys) \<le> a")
    case True
    with 3 show ?thesis by (auto simp: Let_def intro: order_trans)
  next
    case False
    with 3 show ?thesis by (auto simp: Let_def)
  qed
qed

lemma sum_list_update_add:
  "i < length (xs :: int list) \<Longrightarrow> sum_list (xs[i := xs ! i + r]) = sum_list xs + r"
proof (induction xs arbitrary: i)
  case Nil
  then show ?case by simp
next
  case (Cons x xs)
  then show ?case by (cases i) auto
qed

lemma length_rounded_shares: "length (rounded_shares rnd v c) = length (vw_categories v)"
  by (auto simp: rounded_shares_def exact_shares_def Let_def)

lemma length_allocations: "length (allocations rnd v c) = length (vw_categories v)"
proof (cases "rounded_shares rnd v c = []")
  case True
  with length_rounded_shares[of rnd v c] show ?thesis
    by (simp add: allocations_def Let_def)
next
  case False
  then show ?thesis
    by (simp add: allocations_def Let_def length_rounded_shares)
qed

lemma sum_allocations:
  assumes "vw_categories v \<noteq> []"
  shows "sum_list (allocations rnd v c) = c"
proof -
  let ?r = "rounded_shares rnd v c"
  let ?i = "largest_index (map (raw_deficit v c) (vw_categories v))"
  have len: "length ?r = length (vw_categories v)"
    by (rule length_rounded_shares)
  with assms have ne: "?r \<noteq> []" by auto
  have "?i < length ?r"
    using largest_index_bound[of "map (raw_deficit v c) (vw_categories v)"] assms len by simp
  then have "sum_list (?r[?i := ?r ! ?i + (c - sum_list ?r)]) = c"
    by (simp add: sum_list_update_add)
  with ne show ?thesis by (simp add: allocations_def Let_def)
qed

lemma nth_allocations:
  assumes "vw_categories v \<noteq> []" and "j < length (vw_categories v)"
  shows "allocations rnd v c ! j
           = rnd (exact_shares v c ! j)
             + (if j = largest_index (map (raw_deficit v c) (vw_categories v))
                then c - sum_list (map rnd (exact_shares v c)) else 0)"
proof -
  have len: "length (exact_shares v c) = length (vw_categories v)"
    by (auto simp: exact_shares_def Let_def)
  with assms have ne: "rounded_shares rnd v c \<noteq> []"
    by (auto simp: rounded_shares_def)
  from assms(2) len show ?thesis
    using ne by (auto simp: allocations_def Let_def rounded_shares_def nth_list_update)
qed

lemma suggest_amounts:
  "0 < c \<Longrightarrow> \<exists>s. suggest rnd v c = Inr s \<and> map ba_allocate_amount (es_buckets s) = allocations rnd v c"
proof -
  assume "0 < c"
  have "map ba_allocate_amount
          (map (\<lambda>(b, a). \<lparr>ba_id = bk_id b,
                          ba_current_weight =
                            (if vw_total_value v = 0 then 0
                             else of_int (bk_value b) / of_int (vw_total_value v)),
                          ba_allocate_amount = a,
                          ba_weight_after = of_int (bk_value b + a) / of_int (vw_total_value v + c),
                          ba_target_value_after = target_value v c b\<rparr>)
             (zip (vw_categories v) (allocations rnd v c)))
        = map snd (zip (vw_categories v) (allocations rnd v c))"
    by (auto simp: comp_def split_def)
  also have "\<dots> = allocations rnd v c"
    by (simp add: length_allocations)
  finally show ?thesis using \<open>0 < c\<close>
    by (simp add: suggest_def)
qed

text \<open>
  C1, amended. For every view that has a bucket and every contribution above zero, the
  suggester answers with a suggestion whose amounts, one per bucket, sum to the
  contribution exactly, in the smallest currency unit. Every bucket gets its rounded share; the bucket with the
  largest raw deficit gets, on top of its own, what the rounded shares leave of the
  contribution.
\<close>

theorem suggest_allocates_contribution:
  assumes "0 < c" and "vw_categories v \<noteq> []"
  shows "\<exists>s. suggest rnd v c = Inr s
           \<and> es_contribution_amount s = c
           \<and> length (es_buckets s) = length (vw_categories v)
           \<and> sum_list (map ba_allocate_amount (es_buckets s)) = c
           \<and> largest_index (map (raw_deficit v c) (vw_categories v)) < length (vw_categories v)
           \<and> (\<forall>b \<in> set (vw_categories v).
                 raw_deficit v c b
                   \<le> raw_deficit v c (vw_categories v ! largest_index (map (raw_deficit v c) (vw_categories v))))
           \<and> (\<forall>j < length (vw_categories v).
                 ba_allocate_amount (es_buckets s ! j)
                   = rnd (exact_shares v c ! j)
                     + (if j = largest_index (map (raw_deficit v c) (vw_categories v))
                        then c - sum_list (map rnd (exact_shares v c)) else 0))"
proof -
  let ?i = "largest_index (map (raw_deficit v c) (vw_categories v))"
  from suggest_amounts[OF assms(1), of rnd v]
  obtain s where s: "suggest rnd v c = Inr s"
    and am: "map ba_allocate_amount (es_buckets s) = allocations rnd v c"
    by blast
  have c: "es_contribution_amount s = c"
    using s assms(1) by (auto simp: suggest_def)
  have len: "length (es_buckets s) = length (vw_categories v)"
    using arg_cong[OF am, of length] by (simp add: length_allocations)
  have total: "sum_list (map ba_allocate_amount (es_buckets s)) = c"
    by (simp add: am sum_allocations[OF assms(2)])
  have bound: "?i < length (vw_categories v)"
    using largest_index_bound[of "map (raw_deficit v c) (vw_categories v)"] assms(2) by simp
  have largest: "raw_deficit v c b \<le> raw_deficit v c (vw_categories v ! ?i)"
    if "b \<in> set (vw_categories v)" for b
    using largest_index_max[of "raw_deficit v c b" "map (raw_deficit v c) (vw_categories v)"] that bound
    by simp
  have each: "ba_allocate_amount (es_buckets s ! j)
                = rnd (exact_shares v c ! j)
                  + (if j = ?i then c - sum_list (map rnd (exact_shares v c)) else 0)"
    if "j < length (vw_categories v)" for j
  proof -
    have "ba_allocate_amount (es_buckets s ! j) = map ba_allocate_amount (es_buckets s) ! j"
      using that len by simp
    also have "\<dots> = allocations rnd v c ! j" by (simp only: am)
    finally show ?thesis by (simp add: nth_allocations[OF assms(2) that])
  qed
  from s c len total bound largest each show ?thesis by blast
qed

lemma uneven_deficits:
  "map (raw_deficit uneven_view 50000) (vw_categories uneven_view) = [0, 27500, 17500, 7500]"
  by (simp add: raw_deficit_def target_value_def uneven_view_def)

lemma uneven_exact_shares:
  "exact_shares uneven_view 50000 = [0, 550000 / 21, 50000 / 3, 50000 / 7]"
  by (simp add: exact_shares_def raw_deficit_def target_value_def uneven_view_def Let_def)

lemma uneven_rounded:
  "map round_down (exact_shares uneven_view 50000) = [0, 26190, 16666, 7142]"
proof -
  have "\<lfloor>550000 / 21 :: rat\<rfloor> = 26190" by (rule floor_unique) simp_all
  moreover have "\<lfloor>50000 / 3 :: rat\<rfloor> = 16666" by (rule floor_unique) simp_all
  moreover have "\<lfloor>50000 / 7 :: rat\<rfloor> = 7142" by (rule floor_unique) simp_all
  ultimately show ?thesis
    by (simp add: uneven_exact_shares round_down_def)
qed

theorem suggest_allocates_contribution_witness:
  "(\<exists>s. suggest round_down uneven_view 50000 = Inr s
        \<and> map ba_allocate_amount (es_buckets s) = [0, 26192, 16666, 7142]
        \<and> sum_list (map ba_allocate_amount (es_buckets s)) = 50000)
   \<and> map (raw_deficit uneven_view 50000) (vw_categories uneven_view) = [0, 27500, 17500, 7500]
   \<and> largest_index (map (raw_deficit uneven_view 50000) (vw_categories uneven_view)) = 1
   \<and> map round_down (exact_shares uneven_view 50000) = [0, 26190, 16666, 7142]
   \<and> 50000 - sum_list (map round_down (exact_shares uneven_view 50000)) = 2"
proof -
  have c: "(0::int) < 50000" by simp
  have v: "vw_categories uneven_view \<noteq> []" by (simp add: uneven_view_def)
  have n: "length (vw_categories uneven_view) = 4" by (simp add: uneven_view_def)
  from suggest_allocates_contribution[OF c v, of round_down]
  obtain s where s: "suggest round_down uneven_view 50000 = Inr s"
    and len: "length (es_buckets s) = length (vw_categories uneven_view)"
    and total: "sum_list (map ba_allocate_amount (es_buckets s)) = 50000"
    and each: "\<forall>j < length (vw_categories uneven_view).
                 ba_allocate_amount (es_buckets s ! j)
                   = round_down (exact_shares uneven_view 50000 ! j)
                     + (if j = largest_index (map (raw_deficit uneven_view 50000) (vw_categories uneven_view))
                        then 50000 - sum_list (map round_down (exact_shares uneven_view 50000)) else 0)"
    by blast
  have d: "map (raw_deficit uneven_view 50000) (vw_categories uneven_view) = [0, 27500, 17500, 7500]"
    and r: "map round_down (exact_shares uneven_view 50000) = [0, 26190, 16666, 7142]"
    by (simp_all add: uneven_deficits uneven_rounded)
  have i: "largest_index (map (raw_deficit uneven_view 50000) (vw_categories uneven_view)) = 1"
    by (simp add: d Let_def)
  have l: "length (exact_shares uneven_view 50000) = 4"
    using arg_cong[OF r, of length] by simp
  have e: "round_down (exact_shares uneven_view 50000 ! j) = [0, 26190, 16666, 7142] ! j" if "j < 4" for j
    using arg_cong[OF r, of "\<lambda>xs. xs ! j"] that l by simp
  have "map ba_allocate_amount (es_buckets s) = [0, 26192, 16666, 7142]"
  proof (rule nth_equalityI)
    show "length (map ba_allocate_amount (es_buckets s)) = length [0, 26192, 16666, 7142 :: int]"
      using len n by simp
  next
    fix j assume "j < length (map ba_allocate_amount (es_buckets s))"
    then have j: "j < 4" using len n by simp
    then have "j = 0 \<or> j = 1 \<or> j = 2 \<or> j = 3" by arith
    moreover have "ba_allocate_amount (es_buckets s ! j)
        = [0, 26190, 16666, 7142] ! j + (if j = 1 then 50000 - sum_list [0, 26190, 16666, 7142 :: int] else 0)"
      using each j n by (simp add: i r e)
    ultimately show "map ba_allocate_amount (es_buckets s) ! j = [0, 26192, 16666, 7142] ! j"
      using j len n by auto
  qed
  with s total d i r show ?thesis by simp
qed

text \<open>
  The claim as it was stated fails for a view without buckets: the suggester answers with
  a suggestion that has no amounts, and they sum to 0, not to the contribution of 100.
\<close>

theorem suggest_no_buckets_counterexample:
  "suggest round_down no_buckets 100 = Inr \<lparr>es_contribution_amount = 100, es_buckets = []\<rparr>
   \<and> sum_list (map ba_allocate_amount []) \<noteq> (100::int)"
  by (simp add: suggest_def allocations_def rounded_shares_def exact_shares_def no_buckets_def Let_def)

text \<open>
  C2, amended. The amount credited to a crypto asset is
  \<open>max(0, min(expected, actually_acquired \<times> (1 + tolerance)))\<close>: it is the minimum the claim
  names whenever that is not negative, and 0 otherwise. It is never negative, and with an
  expected amount and a tolerance that are not negative it never exceeds
  \<open>expected \<times> (1 + slippage_pct)\<close>, whether the percentage is read as a fraction of 100 or not.
\<close>

theorem prefill_amount_bounds:
  "prefill_amount e b cur s = max 0 (described_prefill e (actually_acquired cur b) (s / 100))
   \<and> 0 \<le> prefill_amount e b cur s
   \<and> (0 \<le> described_prefill e (actually_acquired cur b) (s / 100) \<longrightarrow>
        prefill_amount e b cur s = described_prefill e (actually_acquired cur b) (s / 100))
   \<and> (0 \<le> e \<and> 0 \<le> s \<longrightarrow>
        prefill_amount e b cur s \<le> e * (1 + s / 100) \<and> prefill_amount e b cur s \<le> e * (1 + s))"
proof -
  have "0 \<le> e \<Longrightarrow> 0 \<le> s \<Longrightarrow> e \<le> e * (1 + s / 100)"
    by (simp add: mult_le_cancel_left1)
  moreover have "0 \<le> e \<Longrightarrow> 0 \<le> s \<Longrightarrow> e \<le> e * (1 + s)"
    by (simp add: mult_le_cancel_left1)
  moreover have "0 \<le> e \<Longrightarrow> prefill_amount e b cur s \<le> e"
    by (simp add: prefill_amount_def)
  ultimately show ?thesis
    by (auto simp: prefill_amount_def described_prefill_def)
qed

theorem prefill_amount_bounds_witness:
  "prefill_amount 30 100 120 1 = 101 / 5
   \<and> described_prefill 30 (actually_acquired 120 100) (1 / 100) = 101 / 5
   \<and> prefill_amount 30 100 120 1 \<le> 30 * (1 + 1 / 100)
   \<and> prefill_amount 30 100 200 1 = 30"
  using prefill_amount_bounds[of 30 100 120 1] prefill_amount_bounds[of 30 100 200 1]
  by (simp add: described_prefill_def actually_acquired_def)

text \<open>
  The claim as it was stated cannot hold where the balance fell: with 30 expected, a
  baseline of 100, a balance of 50 and a tolerance of 1 percent, the minimum the claim
  names is negative, so no amount is both equal to it and not negative. The amount credited
  is 0.
\<close>

theorem prefill_amount_counterexample:
  "described_prefill 30 (actually_acquired 50 100) (1 / 100) < 0
   \<and> prefill_amount 30 100 50 1 = 0
   \<and> prefill_amount 30 100 50 1 \<noteq> described_prefill 30 (actually_acquired 50 100) (1 / 100)"
  by (simp add: prefill_amount_def described_prefill_def actually_acquired_def)

end
